theory Spec2Isabelle
  imports Complex_Main "HOL-Library.AList" "HOL-Library.List_Lexorder" "HOL-Library.Char_ord"
begin

section \<open>Run-time values\<close>

text \<open>
  The interpreter and the memory arena store untyped JavaScript values. A number is
  modelled as an exact rational (a finite double without rounding; NaN and the infinities
  are outside the model), a string as a list of 8-bit characters. An object is an
  association list from property keys to values: the nested objects that
  \<open>createArray\<close> builds have integer keys, and an array element is the object
  \<open>{initialized, value}\<close>. Objects are compared by content, not by identity; the
  interpreter never aliases an array object, because it never reads one as a value.
\<close>

datatype key = Index int | Field string

datatype val =
    Num rat
  | Str string
  | Bool bool
  | Undefined
  | Obj "(key \<times> val) list"

section \<open>Memory arena (memory.ts)\<close>

record MemoryEngine =
  ram :: "int \<Rightarrow> val"
  allocated :: "int set"
  allocations :: "(int \<times> (int \<times> string)) list"
  nextFreeAddress :: int
  memorySize :: int

datatype mem_error =
    AllocSizeNotPositive int
  | NoContiguousBlock int
  | InvalidFree int
  | ReadOutOfBounds int
  | ReadNotAllocated int
  | WriteOutOfBounds int
  | WriteNotAllocated int

definition SYSTEM_RESERVED :: int where
  "SYSTEM_RESERVED = 1024"

text \<open>The constructor; the default size is 65536.\<close>

definition new_MemoryEngine :: "int \<Rightarrow> MemoryEngine" where
  "new_MemoryEngine sz =
     \<lparr> ram = (\<lambda>_. Undefined), allocated = {}, allocations = [],
       nextFreeAddress = SYSTEM_RESERVED, memorySize = sz \<rparr>"

text \<open>
  \<open>findFreeBlock\<close>: the outer \<open>while\<close> loop is the recursion, the inner \<open>for\<close> loop
  is the search for the first offset \<open>i < size\<close> whose slot is allocated. An
  obstruction at offset \<open>i\<close> restarts the scan at \<open>address + i + 1\<close>.
\<close>

function findFreeBlock_from :: "MemoryEngine \<Rightarrow> int \<Rightarrow> int \<Rightarrow> mem_error + int" where
  "findFreeBlock_from m sz address =
     (if address + sz \<le> memorySize m then
        (case find (\<lambda>i. address + int i \<in> allocated m) [0..<nat sz] of
           Some i \<Rightarrow> findFreeBlock_from m sz (address + int i + 1)
         | None \<Rightarrow> Inr address)
      else Inl (NoContiguousBlock sz))"
  by pat_completeness auto
termination
proof (relation "measure (\<lambda>(m, sz, address). nat (memorySize m - address))")
  show "wf (measure (\<lambda>(m, sz, address). nat (memorySize m - address)))"
    by simp
next
  fix m :: MemoryEngine and sz address :: int and i :: nat
  assume le: "address + sz \<le> memorySize m"
    and f: "find (\<lambda>i. address + int i \<in> allocated m) [0..<nat sz] = Some i"
  from f have "i < nat sz"
    by (auto simp: find_Some_iff)
  with le show "((m, sz, address + int i + 1), (m, sz, address))
      \<in> measure (\<lambda>(m, sz, address). nat (memorySize m - address))"
    by simp
qed

declare findFreeBlock_from.simps [simp del]

definition findFreeBlock :: "MemoryEngine \<Rightarrow> int \<Rightarrow> mem_error + int" where
  "findFreeBlock m sz = findFreeBlock_from m sz (nextFreeAddress m)"

definition markAllocated :: "MemoryEngine \<Rightarrow> int \<Rightarrow> int \<Rightarrow> string \<Rightarrow> MemoryEngine" where
  "markAllocated m address sz type =
     m \<lparr> allocated := fold (\<lambda>i s. insert (address + int i) s) [0..<nat sz] (allocated m),
         allocations := AList.update address (sz, type) (allocations m),
         nextFreeAddress := max (nextFreeAddress m) (address + sz) \<rparr>"

definition allocate :: "MemoryEngine \<Rightarrow> int \<Rightarrow> string \<Rightarrow> mem_error + (int \<times> MemoryEngine)" where
  "allocate m sz type =
     (if sz \<le> 0 then Inl (AllocSizeNotPositive sz)
      else case findFreeBlock m sz of
             Inl e \<Rightarrow> Inl e
           | Inr address \<Rightarrow> Inr (address, markAllocated m address sz type))"

definition recalculateNextFreeAddress :: "MemoryEngine \<Rightarrow> MemoryEngine" where
  "recalculateNextFreeAddress m =
     m \<lparr> nextFreeAddress :=
           fold (\<lambda>(address, (sz, type)) maxEnd. max maxEnd (address + sz))
             (allocations m) SYSTEM_RESERVED \<rparr>"

definition free :: "MemoryEngine \<Rightarrow> int \<Rightarrow> mem_error + MemoryEngine" where
  "free m address =
     (case map_of (allocations m) address of
        None \<Rightarrow> Inl (InvalidFree address)
      | Some (sz, type) \<Rightarrow>
          let m1 = fold (\<lambda>i m. m \<lparr> allocated := allocated m - {address + int i},
                                   ram := (ram m)(address + int i := Undefined) \<rparr>)
                     [0..<nat sz] m;
              m2 = m1 \<lparr> allocations := AList.delete address (allocations m1) \<rparr>
          in Inr (if address + sz \<ge> nextFreeAddress m2
                  then recalculateNextFreeAddress m2 else m2))"

definition read :: "MemoryEngine \<Rightarrow> int \<Rightarrow> mem_error + val" where
  "read m address =
     (if address < 0 \<or> address \<ge> memorySize m then Inl (ReadOutOfBounds address)
      else if address \<notin> allocated m then Inl (ReadNotAllocated address)
      else Inr (ram m address))"

text \<open>\<open>write\<close> (named \<open>mem_write\<close>: \<open>write\<close> is a keyword of the prover).\<close>

definition mem_write :: "MemoryEngine \<Rightarrow> int \<Rightarrow> val \<Rightarrow> mem_error + MemoryEngine" where
  "mem_write m address v =
     (if address < 0 \<or> address \<ge> memorySize m then Inl (WriteOutOfBounds address)
      else if address \<notin> allocated m then Inl (WriteNotAllocated address)
      else Inr (m \<lparr> ram := (ram m)(address := v) \<rparr>))"

text \<open>
  \<open>free_run m size a\<close>: the \<open>size\<close> consecutive slots starting at \<open>a\<close> are all free.
\<close>

definition free_run :: "MemoryEngine \<Rightarrow> int \<Rightarrow> int \<Rightarrow> bool" where
  "free_run m sz a = (\<forall>i \<in> set [0..<nat sz]. a + int i \<notin> allocated m)"

text \<open>
  The arena after \<open>allocate(1)\<close> twice and \<open>free\<close> of the first block: slot 1024 is
  free again, slot 1025 is live.
\<close>

definition hole_arena :: MemoryEngine where
  "hole_arena =
     (case allocate (new_MemoryEngine 65536) 1 ''INTEGER'' of
        Inl e \<Rightarrow> new_MemoryEngine 65536
      | Inr (a1, m1) \<Rightarrow>
          (case allocate m1 1 ''INTEGER'' of
             Inl e \<Rightarrow> m1
           | Inr (a2, m2) \<Rightarrow> (case free m2 a1 of Inl e \<Rightarrow> m2 | Inr m3 \<Rightarrow> m3)))"

text \<open>
  The arena states that a run can reach: the constructor's state, and every state a
  successful \<open>allocate\<close>, \<open>free\<close> or \<open>write\<close> leads to.
\<close>

inductive arena_reachable :: "MemoryEngine \<Rightarrow> bool" where
  init: "arena_reachable (new_MemoryEngine sz)"
| alloc: "arena_reachable m \<Longrightarrow> allocate m sz t = Inr (a, m') \<Longrightarrow> arena_reachable m'"
| freed: "arena_reachable m \<Longrightarrow> free m a = Inr m' \<Longrightarrow> arena_reachable m'"
| written: "arena_reachable m \<Longrightarrow> mem_write m a v = Inr m' \<Longrightarrow> arena_reachable m'"

section \<open>Properties of the memory arena\<close>

section \<open>Tokenizer (lexer.ts)\<close>

text \<open>
  A source string is a sequence of UTF-16 code units, modelled as natural numbers, so
  that the assignment glyph U+2190 is an input character like any other. \<open>U c\<close> is the
  code unit of an ASCII character and \<open>js s\<close> the string of an ASCII literal.
\<close>

type_synonym jschar = nat

abbreviation U :: "char \<Rightarrow> jschar" where
  "U c \<equiv> of_char c"

abbreviation js :: "string \<Rightarrow> jschar list" where
  "js s \<equiv> map of_char s"

definition LEFT_ARROW :: jschar where
  "LEFT_ARROW = 8592"

datatype TokenType =
    KEYWORD | IDENTIFIER | NUMBER | STRING | OPERATOR | ASSIGNMENT | COMMA | COLON
  | LPAREN | RPAREN | LBRACKET | RBRACKET | NEWLINE | EOF | COMMENT

text \<open>The fields of a token are \<open>type\<close>, \<open>value\<close>, \<open>line\<close> and \<open>column\<close>.\<close>

record Token =
  tok_type :: TokenType
  tok_value :: "jschar list"
  tok_line :: nat
  tok_column :: nat

definition mkToken :: "TokenType \<Rightarrow> jschar list \<Rightarrow> nat \<Rightarrow> nat \<Rightarrow> Token" where
  "mkToken t v l c = \<lparr> tok_type = t, tok_value = v, tok_line = l, tok_column = c \<rparr>"

text \<open>The errors that \<open>tokenize\<close> throws; each message carries a line and a column.\<close>

datatype lex_error =
    UnterminatedString nat nat
  | UnterminatedCharacterLiteral nat nat
  | InvalidHexLiteral nat nat
  | UnexpectedCharacter jschar nat nat

fun err_line :: "lex_error \<Rightarrow> nat" where
  "err_line (UnterminatedString l c) = l"
| "err_line (UnterminatedCharacterLiteral l c) = l"
| "err_line (InvalidHexLiteral l c) = l"
| "err_line (UnexpectedCharacter ch l c) = l"

fun err_column :: "lex_error \<Rightarrow> nat" where
  "err_column (UnterminatedString l c) = c"
| "err_column (UnterminatedCharacterLiteral l c) = c"
| "err_column (InvalidHexLiteral l c) = c"
| "err_column (UnexpectedCharacter ch l c) = c"

definition KEYWORDS :: "jschar list list" where
  "KEYWORDS = map js
    [''DECLARE'', ''CONSTANT'', ''IF'', ''THEN'', ''ELSE'', ''ENDIF'', ''WHILE'', ''DO'',
     ''ENDWHILE'', ''REPEAT'', ''UNTIL'', ''FOR'', ''TO'', ''STEP'', ''NEXT'', ''CASE'',
     ''OF'', ''OTHERWISE'', ''ENDCASE'', ''INTEGER'', ''REAL'', ''STRING'', ''CHAR'',
     ''BOOLEAN'', ''ARRAY'', ''INPUT'', ''OUTPUT'', ''PROCEDURE'', ''ENDPROCEDURE'',
     ''FUNCTION'', ''ENDFUNCTION'', ''RETURN'', ''RETURNS'', ''CALL'', ''BYVAL'', ''BYREF'',
     ''TRUE'', ''FALSE'', ''AND'', ''OR'', ''NOT'', ''DIV'', ''MOD'', ''OPENFILE'',
     ''CLOSEFILE'', ''READFILE'', ''WRITEFILE'', ''EOF'', ''READ'', ''WRITE'', ''APPEND'',
     ''MALLOC'', ''FREE'', ''SIZE_OF'', ''POINTER_TO_INTEGER'', ''POINTER_TO_REAL'',
     ''POINTER_TO_CHAR'', ''VOID_POINTER'']"

text \<open>The character classes of the regular expressions \<open>\d\<close>, \<open>[0-9a-fA-F]\<close>,
  \<open>[\d.]\<close>, \<open>[a-zA-Z_]\<close> and \<open>[a-zA-Z0-9_]\<close>.\<close>

definition isDigit :: "jschar \<Rightarrow> bool" where
  "isDigit c = (U CHR ''0'' \<le> c \<and> c \<le> U CHR ''9'')"

definition isHexDigit :: "jschar \<Rightarrow> bool" where
  "isHexDigit c = (isDigit c \<or> (U CHR ''a'' \<le> c \<and> c \<le> U CHR ''f'') \<or>
                   (U CHR ''A'' \<le> c \<and> c \<le> U CHR ''F''))"

definition isDigitOrDot :: "jschar \<Rightarrow> bool" where
  "isDigitOrDot c = (isDigit c \<or> c = U CHR ''.'')"

definition isIdentStart :: "jschar \<Rightarrow> bool" where
  "isIdentStart c = ((U CHR ''a'' \<le> c \<and> c \<le> U CHR ''z'') \<or>
                     (U CHR ''A'' \<le> c \<and> c \<le> U CHR ''Z'') \<or> c = U CHR ''_'')"

definition isIdentPart :: "jschar \<Rightarrow> bool" where
  "isIdentPart c = (isIdentStart c \<or> isDigit c)"

text \<open>\<open>charAt cs k\<close> is \<open>code[i + k]\<close> for the unread suffix \<open>cs = code.slice(i)\<close>:
  \<open>None\<close> stands for \<open>undefined\<close> past the end.\<close>

definition charAt :: "jschar list \<Rightarrow> nat \<Rightarrow> jschar option" where
  "charAt cs k = (if k < length cs then Some (cs ! k) else None)"

text \<open>
  The body of a quoted literal: the inner \<open>while\<close> loop reads up to the closing quote,
  throws at a newline, and the check after the loop throws at the end of the input.
  \<open>err\<close> builds the error from the line and the start column.
\<close>

definition lexQuoted ::
  "jschar \<Rightarrow> (nat \<Rightarrow> nat \<Rightarrow> lex_error) \<Rightarrow> jschar list \<Rightarrow> nat \<Rightarrow> nat \<Rightarrow>
     lex_error + (Token list \<times> jschar list \<times> nat \<times> nat)" where
  "lexQuoted quote err rest line column =
     (let startColumn = column;
          str = takeWhile (\<lambda>c. c \<noteq> quote \<and> c \<noteq> U CHR 0x0A) rest;
          after = dropWhile (\<lambda>c. c \<noteq> quote \<and> c \<noteq> U CHR 0x0A) rest
      in case after of
           [] \<Rightarrow> Inl (err line startColumn)
         | d # after' \<Rightarrow>
             if d = U CHR 0x0A then Inl (err line startColumn)
             else Inr ([mkToken STRING str line startColumn], after', line,
                       column + 1 + length str + 1))"

text \<open>
  One iteration of the main \<open>while\<close> loop on a non-empty unread suffix \<open>c # rest\<close>:
  the error thrown, or the tokens pushed (none or one), the new unread suffix and the
  new line and column. The branches are in the order of the source.
\<close>

definition lexStep ::
  "jschar \<Rightarrow> jschar list \<Rightarrow> nat \<Rightarrow> nat \<Rightarrow>
     lex_error + (Token list \<times> jschar list \<times> nat \<times> nat)" where
  "lexStep c rest line column =
    (if c = U CHR '' '' \<or> c = U CHR 0x09 \<or> c = U CHR 0x0D then
       Inr ([], rest, line, column + 1)
     else if c = U CHR 0x0A then
       Inr ([mkToken NEWLINE [U CHR 0x0A] line column], rest, line + 1, 1)
     else if c = U CHR ''/'' \<and> charAt rest 0 = Some (U CHR ''/'') then
       (let body = drop 1 rest;
            comment = takeWhile (\<lambda>d. d \<noteq> U CHR 0x0A) body;
            column' = column + 2 + length comment
        in Inr ([mkToken COMMENT comment line (column' - length comment)],
                dropWhile (\<lambda>d. d \<noteq> U CHR 0x0A) body, line, column'))
     else if c = U CHR 0x22 then
       lexQuoted (U CHR 0x22) UnterminatedString rest line column
     else if c = U CHR 0x27 then
       lexQuoted (U CHR 0x27) UnterminatedCharacterLiteral rest line column
     else if isDigit c then
       (let startColumn = column in
        if c = U CHR ''0'' \<and> (charAt rest 0 = Some (U CHR ''x'') \<or> charAt rest 0 = Some (U CHR ''X'')) then
          (let body = drop 1 rest;
               num = js ''0x'' @ takeWhile isHexDigit body
           in if length num = 2 then Inl (InvalidHexLiteral line startColumn)
              else Inr ([mkToken NUMBER num line startColumn], dropWhile isHexDigit body,
                        line, column + 2 + length (takeWhile isHexDigit body)))
        else
          (let num = takeWhile isDigitOrDot (c # rest)
           in Inr ([mkToken NUMBER num line startColumn], dropWhile isDigitOrDot (c # rest),
                   line, column + length num)))
     else if c = LEFT_ARROW \<or>
             (c = U CHR ''<'' \<and> charAt rest 0 = Some (U CHR ''-'') \<and> charAt rest 1 = Some (U CHR ''-'')) then
       (let startColumn = column in
        if c = LEFT_ARROW then
          Inr ([mkToken ASSIGNMENT (js ''<--'') line startColumn], rest, line, column + 1)
        else
          Inr ([mkToken ASSIGNMENT (js ''<--'') line startColumn], drop 2 rest, line, column + 3))
     else if c = U CHR ''<'' \<and> charAt rest 0 = Some (U CHR ''='') then
       Inr ([mkToken OPERATOR (js ''<='') line column], drop 1 rest, line, column + 2)
     else if c = U CHR ''>'' \<and> charAt rest 0 = Some (U CHR ''='') then
       Inr ([mkToken OPERATOR (js ''>='') line column], drop 1 rest, line, column + 2)
     else if c = U CHR ''<'' \<and> charAt rest 0 = Some (U CHR ''>'') then
       Inr ([mkToken OPERATOR (js ''<>'') line column], drop 1 rest, line, column + 2)
     else if c \<in> set (js ''+-*/=<>&'') then
       Inr ([mkToken OPERATOR [c] line column], rest, line, column + 1)
     else if c = U CHR '','' then
       Inr ([mkToken COMMA [c] line column], rest, line, column + 1)
     else if c = U CHR '':'' then
       Inr ([mkToken COLON [c] line column], rest, line, column + 1)
     else if c = U CHR ''('' then
       Inr ([mkToken LPAREN [c] line column], rest, line, column + 1)
     else if c = U CHR '')'' then
       Inr ([mkToken RPAREN [c] line column], rest, line, column + 1)
     else if c = U CHR ''['' then
       Inr ([mkToken LBRACKET [c] line column], rest, line, column + 1)
     else if c = U CHR '']'' then
       Inr ([mkToken RBRACKET [c] line column], rest, line, column + 1)
     else if isIdentStart c then
       (let startColumn = column;
            identifier = takeWhile isIdentPart (c # rest);
            type = (if identifier \<in> set KEYWORDS then KEYWORD else IDENTIFIER)
        in Inr ([mkToken type identifier line startColumn], dropWhile isIdentPart (c # rest),
                line, column + length identifier))
     else Inl (UnexpectedCharacter c line column))"

text \<open>
  Every iteration that does not throw consumes at least one character; this is what
  makes the loop terminate.
\<close>

lemma lexQuoted_shorter:
  "lexQuoted q err rest line column = Inr (toks, cs', line', column') \<Longrightarrow>
     length cs' \<le> length rest"
proof -
  assume a: "lexQuoted q err rest line column = Inr (toks, cs', line', column')"
  let ?P = "\<lambda>c. c \<noteq> q \<and> c \<noteq> U CHR 0x0A"
  from a obtain d where "dropWhile ?P rest = d # cs'"
    by (auto simp: lexQuoted_def Let_def split: list.splits if_splits)
  then have "length (dropWhile ?P rest) = Suc (length cs')" by simp
  with length_dropWhile_le[of ?P rest] show ?thesis by simp
qed

lemma dropWhile_head_shorter:
  "P c \<Longrightarrow> length (dropWhile P (c # rest)) \<le> length rest"
  by (simp add: length_dropWhile_le)

lemma lexStep_shorter:
  assumes "lexStep c rest line column = Inr (toks, cs', line', column')"
  shows "length cs' \<le> length rest"
proof -
  have dw: "length (dropWhile P (drop k rest)) \<le> length rest" for P k
    by (rule order_trans[OF length_dropWhile_le]) simp
  have ident: "isIdentStart c \<Longrightarrow> isIdentPart c" by (simp add: isIdentPart_def)
  have dig: "isDigit c \<Longrightarrow> isDigitOrDot c" by (simp add: isDigitOrDot_def)
  from assms show ?thesis
    unfolding lexStep_def Let_def
    by (auto split: if_splits dest: lexQuoted_shorter
        simp: dw dropWhile_head_shorter ident dig length_dropWhile_le simp del: dropWhile.simps)
qed

function tokenize_from ::
  "jschar list \<Rightarrow> nat \<Rightarrow> nat \<Rightarrow> Token list \<Rightarrow> lex_error + Token list" where
  "tokenize_from cs line column tokens =
     (case cs of
        [] \<Rightarrow> Inr (tokens @ [mkToken EOF [] line column])
      | c # rest \<Rightarrow>
          (case lexStep c rest line column of
             Inl e \<Rightarrow> Inl e
           | Inr (toks, cs', line', column') \<Rightarrow> tokenize_from cs' line' column' (tokens @ toks)))"
  by pat_completeness auto
termination
proof (relation "measure (\<lambda>(cs, line, column, tokens). length cs)")
  show "wf (measure (\<lambda>(cs, line, column, tokens). length cs))"
    by simp
next
  fix cs :: "jschar list" and line column :: nat and tokens :: "Token list"
    and c rest x toks y cs' z line' column'
  assume "cs = c # rest" and "lexStep c rest line column = Inr x"
    and "(toks, y) = x" and "(cs', z) = y" and "(line', column') = z"
  then have "lexStep c rest line column = Inr (toks, cs', line', column')" by simp
  from lexStep_shorter[OF this] \<open>cs = c # rest\<close>
  show "((cs', line', column', tokens @ toks), (cs, line, column, tokens))
      \<in> measure (\<lambda>(cs, line, column, tokens). length cs)"
    by simp
qed

declare tokenize_from.simps [simp del]

definition tokenize :: "jschar list \<Rightarrow> lex_error + Token list" where
  "tokenize code = tokenize_from code 1 1 []"

section \<open>Abstract syntax (types.ts)\<close>

text \<open>
  The embedding covers the statement kinds Declare, Assignment, Output, Input, If, While,
  Repeat, For, Call, Return and Procedure, and the expression kinds Literal, Identifier,
  ArrayAccess, BinaryOp and UnaryOp together with the four memory kinds AddressOf,
  Dereference, MemoryAllocation and SizeOf. Outside it are FunctionCall expressions (with
  Function declarations and the synchronous execution path of function bodies), CASE,
  the file statements and FREE. Every node carries its source line, the last argument
  of each constructor. A \<open>DataType\<close> is the string that names it.
\<close>

type_synonym DataType = string

datatype expr =
    Literal val DataType nat
  | Identifier string nat
  | ArrayAccess string "expr list" nat
  | BinaryOp string expr expr nat
  | UnaryOp string expr nat
  | AddressOf expr nat
  | Dereference expr nat
  | MemoryAllocation expr DataType nat
  | SizeOf DataType nat

record Parameter =
  p_name :: string
  p_type :: DataType
  byRef :: bool

text \<open>
  \<open>Declare identifier dataType arrayBounds arrayElementType\<close>;
  \<open>Assignment target value\<close>; \<open>If condition thenBlock elseIfBlocks elseBlock\<close>;
  \<open>While condition body\<close>; \<open>Repeat body condition\<close>;
  \<open>For variable start end step body\<close>; \<open>Call name arguments\<close>;
  \<open>Procedure name parameters body\<close>.
\<close>

datatype stmt =
    Declare string DataType "(int \<times> int) list option" "DataType option" nat
  | Assignment expr expr nat
  | Output "expr list" nat
  | Input expr nat
  | If expr "stmt list" "(expr \<times> stmt list) list option" "stmt list option" nat
  | While expr "stmt list" nat
  | Repeat "stmt list" expr nat
  | For string expr expr expr "stmt list" nat
  | Call string "expr list" nat
  | Return expr nat
  | Procedure string "Parameter list" "stmt list" nat


fun expr_line :: "expr \<Rightarrow> nat" where
  "expr_line (Literal v t l) = l"
| "expr_line (Identifier x l) = l"
| "expr_line (ArrayAccess a is l) = l"
| "expr_line (BinaryOp op a b l) = l"
| "expr_line (UnaryOp op a l) = l"
| "expr_line (AddressOf a l) = l"
| "expr_line (Dereference a l) = l"
| "expr_line (MemoryAllocation a t l) = l"
| "expr_line (SizeOf t l) = l"

fun stmt_line :: "stmt \<Rightarrow> nat" where
  "stmt_line (Declare x t b e l) = l"
| "stmt_line (Assignment t v l) = l"
| "stmt_line (Output es l) = l"
| "stmt_line (Input t l) = l"
| "stmt_line (If c t ei e l) = l"
| "stmt_line (While c b l) = l"
| "stmt_line (Repeat b c l) = l"
| "stmt_line (For x s e k b l) = l"
| "stmt_line (Call p as l) = l"
| "stmt_line (Return e l) = l"
| "stmt_line (Procedure p ps b l) = l"

section \<open>Interpreter state and errors (interpreter.ts)\<close>

text \<open>The messages of the run-time errors the interpreter raises.\<close>

datatype message =
    ExecutionTimeout
  | UnknownNodeType string
  | VariableNotDeclared string
  | ArrayNotDeclared string
  | NotAnArray string
  | ArrayIndexMustBeNumber
  | ArrayIndexOutOfBounds
  | IfConditionMustBeBoolean
  | ElseIfConditionMustBeBoolean
  | WhileConditionMustBeBoolean
  | UntilConditionMustBeBoolean
  | ForBoundsMustBeNumbers
  | ForStepCannotBeZero
  | ProcedureNotFound string
  | IncorrectNumberOfArguments string
  | MaximumRecursionDepthExceeded
  | ByRefParameterMustBeVariable
  | VariableNotFound string
  | UnknownExpressionType string
  | UsedBeforeAssignment string
  | AccessedBeforeAssignment
  | ArithmeticOnNonNumbers
  | DivisionByZero
  | InvalidComparison
  | LogicalOperatorsRequireBoolean
  | UnknownOperator string
  | CannotNegateNonNumber
  | NotRequiresBoolean
  | UnknownUnaryOperator string

text \<open>
  What a statement or an expression can throw: a \<open>RuntimeError\<close> with its message
  and line, the \<open>ReturnValue\<close> of a RETURN statement, or the \<open>TypeError\<close> that
  JavaScript itself raises on a property access on \<open>undefined\<close>, on destructuring
  \<open>undefined\<close>, or on a property assignment to a primitive in strict mode.
\<close>

datatype thrown =
    RuntimeError message nat
  | ReturnValue val
  | TypeError

text \<open>
  A \<open>Variable\<close> record. Its fields are \<open>type\<close>, \<open>value\<close>, \<open>dimensions\<close>,
  \<open>elementType\<close> and \<open>initialized\<close>.
\<close>

record Variable =
  v_type :: DataType
  v_value :: val
  v_dimensions :: "(int \<times> int) list option"
  v_elementType :: "DataType option"
  v_initialized :: bool

text \<open>
  The interpreter's state. Variable records are mutable objects that BYREF parameters
  share, so they live in a store \<open>heap\<close> addressed by references, and an environment
  maps a name to the reference of its record. Execution contexts are mutable objects
  too: \<open>contexts\<close> maps a context handle to the \<open>variables\<close> map of that context.
  Handle 0 is the global context, which is the parent of every other context.
  \<open>outputs\<close> collects the lines the generator yields, and \<open>inputCount\<close> counts the
  calls of the input handler. Debug mode is off. The fields \<open>memory\<close> and
  \<open>variableAddresses\<close> are never used after the constructor and are left out, as
  are the file handles.
\<close>

record Interpreter =
  heap :: "nat \<Rightarrow> Variable"
  nextRef :: nat
  contexts :: "nat \<Rightarrow> string \<rightharpoonup> nat"
  nextContext :: nat
  procedures :: "string \<rightharpoonup> (string \<times> Parameter list \<times> stmt list \<times> nat)"
  iterationCount :: nat
  recursionDepth :: nat
  callStack :: "(string \<times> nat \<times> string) list"
  outputs :: "string list"
  inputCount :: nat

definition MAX_ITERATIONS :: nat where
  "MAX_ITERATIONS = 10000"

definition MAX_RECURSION_DEPTH :: nat where
  "MAX_RECURSION_DEPTH = 1000"

text \<open>
  The functions of the JavaScript environment that the interpreter calls and that are
  not part of the repository: \<open>parseInt\<close>, \<open>parseFloat\<close> and the conversion
  \<open>Number\<close> of a string (\<open>None\<close> is NaN), \<open>String\<close> of a number, and the input
  handler, whose answer may depend on how many requests came before, on the prompt name
  and on the type.
\<close>

record Host =
  parseInt :: "string \<Rightarrow> rat option"
  parseFloat :: "string \<Rightarrow> rat option"
  stringToNumber :: "string \<Rightarrow> rat option"
  numberToString :: "rat \<Rightarrow> string"
  inputHandler :: "nat \<Rightarrow> string \<Rightarrow> DataType \<Rightarrow> string"

text \<open>The constructor's state.\<close>

definition new_Interpreter :: Interpreter where
  "new_Interpreter =
     \<lparr> heap = (\<lambda>_. \<lparr> v_type = [], v_value = Undefined, v_dimensions = None,
                       v_elementType = None, v_initialized = False \<rparr>),
       nextRef = 0, contexts = (\<lambda>_. Map.empty), nextContext = 1, procedures = Map.empty,
       iterationCount = 0, recursionDepth = 0, callStack = [(''main'', 1, ''main'')],
       outputs = [], inputCount = 0 \<rparr>"

text \<open>
  \<open>getVariable\<close> walks the parent chain, which is the context itself and then the
  global context. It returns the reference of the Variable record.
\<close>

definition getVariable :: "Interpreter \<Rightarrow> string \<Rightarrow> nat \<Rightarrow> nat option" where
  "getVariable st name context =
     (case contexts st context name of
        Some r \<Rightarrow> Some r
      | None \<Rightarrow> if context = 0 then None else contexts st 0 name)"

text \<open>\<open>context.variables.set(name, variable)\<close> for a Variable record that exists.\<close>

definition bindVariable :: "Interpreter \<Rightarrow> nat \<Rightarrow> string \<Rightarrow> nat \<Rightarrow> Interpreter" where
  "bindVariable st context name r =
     st \<lparr> contexts := (contexts st)(context := (contexts st context)(name \<mapsto> r)) \<rparr>"

text \<open>\<open>context.variables.set(name, {...})\<close> with a new Variable record.\<close>

definition newVariable :: "Interpreter \<Rightarrow> nat \<Rightarrow> string \<Rightarrow> Variable \<Rightarrow> Interpreter" where
  "newVariable st context name v =
     bindVariable (st \<lparr> heap := (heap st)(nextRef st := v), nextRef := nextRef st + 1 \<rparr>)
       context name (nextRef st)"

text \<open>\<open>variable.value = value; variable.initialized = true\<close>.\<close>

definition assignVariable :: "Interpreter \<Rightarrow> nat \<Rightarrow> val \<Rightarrow> Interpreter" where
  "assignVariable st r v =
     st \<lparr> heap := (heap st)(r := (heap st r) \<lparr> v_value := v, v_initialized := True \<rparr>) \<rparr>"

section \<open>JavaScript primitives\<close>

definition typeof :: "val \<Rightarrow> string" where
  "typeof v = (case v of Num r \<Rightarrow> ''number'' | Str s \<Rightarrow> ''string'' | Bool b \<Rightarrow> ''boolean''
               | Undefined \<Rightarrow> ''undefined'' | Obj kvs \<Rightarrow> ''object'')"

text \<open>Truthiness, as \<open>!x\<close> and \<open>if (x)\<close> use it.\<close>

definition truthy :: "val \<Rightarrow> bool" where
  "truthy v = (case v of Num r \<Rightarrow> r \<noteq> 0 | Str s \<Rightarrow> s \<noteq> [] | Bool b \<Rightarrow> b
               | Undefined \<Rightarrow> False | Obj kvs \<Rightarrow> True)"

text \<open>
  \<open>getProp v k\<close> is the property read \<open>v[k]\<close>: a missing property is \<open>undefined\<close>,
  a string has its characters as indexed properties, and reading a property of
  \<open>undefined\<close> throws.
\<close>

definition getProp :: "val \<Rightarrow> key \<Rightarrow> thrown + val" where
  "getProp v k =
     (case v of
        Undefined \<Rightarrow> Inl TypeError
      | Obj kvs \<Rightarrow> Inr (case map_of kvs k of None \<Rightarrow> Undefined | Some x \<Rightarrow> x)
      | Str s \<Rightarrow> Inr (case k of
                        Index i \<Rightarrow> if 0 \<le> i \<and> i < int (length s) then Str [s ! nat i]
                                   else Undefined
                      | Field f \<Rightarrow> Undefined)
      | _ \<Rightarrow> Inr Undefined)"

text \<open>
  \<open>setProp v k x\<close> is the property assignment \<open>v[k] = x\<close> (the module is in strict
  mode: assigning to a property of a primitive throws); it returns the updated object.
\<close>

definition setProp :: "val \<Rightarrow> key \<Rightarrow> val \<Rightarrow> thrown + val" where
  "setProp v k x =
     (case v of
        Obj kvs \<Rightarrow> Inr (Obj (AList.update k x kvs))
      | _ \<Rightarrow> Inl TypeError)"

text \<open>The element record \<open>{ initialized, value }\<close>.\<close>

definition element :: "bool \<Rightarrow> val \<Rightarrow> val" where
  "element i v = Obj [(Field ''initialized'', Bool i), (Field ''value'', v)]"

text \<open>\<open>Math.floor\<close>, and the remainder \<open>%\<close>, which truncates its quotient.\<close>

definition Math_floor :: "rat \<Rightarrow> rat" where
  "Math_floor x = of_int \<lfloor>x\<rfloor>"

definition js_rem :: "rat \<Rightarrow> rat \<Rightarrow> rat" where
  "js_rem a b = a - b * of_int (if 0 \<le> a / b then \<lfloor>a / b\<rfloor> else \<lceil>a / b\<rceil>)"

text \<open>
  The implicit conversions that the FOR loop relies on when its variable does not hold
  a number: \<open>toNumber\<close> for the comparisons \<open>variable.value <= end\<close> and
  \<open>variable.value >= end\<close> (which are false on NaN), and \<open>js_plus\<close> for
  \<open>variable.value += Math.floor(step)\<close>, which concatenates when the left operand is
  a string or an object. \<open>undefined + n\<close> is NaN, which the model does not have.
\<close>

definition toNumber :: "Host \<Rightarrow> val \<Rightarrow> rat option" where
  "toNumber h v =
     (case v of Num r \<Rightarrow> Some r | Bool b \<Rightarrow> Some (if b then 1 else 0)
      | Str s \<Rightarrow> stringToNumber h s | Undefined \<Rightarrow> None | Obj kvs \<Rightarrow> None)"

definition js_le :: "Host \<Rightarrow> val \<Rightarrow> rat \<Rightarrow> bool" where
  "js_le h v e = (case toNumber h v of None \<Rightarrow> False | Some r \<Rightarrow> r \<le> e)"

definition js_ge :: "Host \<Rightarrow> val \<Rightarrow> rat \<Rightarrow> bool" where
  "js_ge h v e = (case toNumber h v of None \<Rightarrow> False | Some r \<Rightarrow> r \<ge> e)"

definition js_plus :: "Host \<Rightarrow> val \<Rightarrow> rat \<Rightarrow> val option" where
  "js_plus h v n =
     (case v of
        Num r \<Rightarrow> Some (Num (r + n))
      | Bool b \<Rightarrow> Some (Num ((if b then 1 else 0) + n))
      | Str s \<Rightarrow> Some (Str (s @ numberToString h n))
      | Obj kvs \<Rightarrow> Some (Str (''[object Object]'' @ numberToString h n))
      | Undefined \<Rightarrow> None)"

text \<open>\<open>toLowerCase\<close> on the 8-bit characters of the model.\<close>

definition lowerChar :: "char \<Rightarrow> char" where
  "lowerChar c =
     (let n = (of_char c :: nat)
      in if (65 \<le> n \<and> n \<le> 90) \<or> (192 \<le> n \<and> n \<le> 222 \<and> n \<noteq> 215)
         then char_of (n + 32) else c)"

definition toLowerCase :: "string \<Rightarrow> string" where
  "toLowerCase s = map lowerChar s"

definition valueToString :: "Host \<Rightarrow> val \<Rightarrow> string" where
  "valueToString h v =
     (case v of
        Bool b \<Rightarrow> if b then ''TRUE'' else ''FALSE''
      | Undefined \<Rightarrow> []
      | Num r \<Rightarrow> numberToString h r
      | Str s \<Rightarrow> s
      | Obj kvs \<Rightarrow> ''[object Object]'')"

text \<open>\<open>parts.join(' ')\<close>.\<close>

fun join :: "string \<Rightarrow> string list \<Rightarrow> string" where
  "join sep [] = []"
| "join sep [x] = x"
| "join sep (x # y # ys) = x @ sep @ join sep (y # ys)"

section \<open>Arrays (interpreter.ts)\<close>

text \<open>
  \<open>createArray\<close>. With no dimension left the destructuring of \<open>dimensions[0]\<close>
  throws.
\<close>

fun createArray :: "(int \<times> int) list \<Rightarrow> thrown + val" where
  "createArray [] = Inl TypeError"
| "createArray [(lower, upper)] =
     Inr (Obj (map (\<lambda>i. (Index i, element False Undefined)) [lower..upper]))"
| "createArray ((lower, upper) # dimensions) =
     (case createArray dimensions of
        Inl t \<Rightarrow> Inl t
      | Inr sub \<Rightarrow> Inr (Obj (map (\<lambda>i. (Index i, sub)) [lower..upper])))"

text \<open>
  \<open>getArrayElement\<close>. An empty index list never comes from the parser; the source then
  recurses until the dimensions run out and the destructuring throws.
\<close>

fun getArrayElement :: "val \<Rightarrow> int list \<Rightarrow> (int \<times> int) list \<Rightarrow> nat \<Rightarrow> thrown + val" where
  "getArrayElement arr [] dimensions line = Inl TypeError"
| "getArrayElement arr [idx] dimensions line =
     (case dimensions of
        [] \<Rightarrow> Inl TypeError
      | (lower, upper) # ds \<Rightarrow>
          if idx < lower \<or> idx > upper then Inl (RuntimeError ArrayIndexOutOfBounds line)
          else (case getProp arr (Index idx) of
                  Inl t \<Rightarrow> Inl t
                | Inr elem \<Rightarrow>
                    (case getProp elem (Field ''initialized'') of
                       Inl t \<Rightarrow> Inl t
                     | Inr i \<Rightarrow>
                         if \<not> truthy i then Inl (RuntimeError AccessedBeforeAssignment line)
                         else getProp elem (Field ''value''))))"
| "getArrayElement arr (idx # indices) dimensions line =
     (case dimensions of
        [] \<Rightarrow> Inl TypeError
      | (lower, upper) # ds \<Rightarrow>
          if idx < lower \<or> idx > upper then Inl (RuntimeError ArrayIndexOutOfBounds line)
          else (case getProp arr (Index idx) of
                  Inl t \<Rightarrow> Inl t
                | Inr sub \<Rightarrow> getArrayElement sub indices ds line))"

text \<open>
  \<open>setArrayElement\<close> mutates the array object in place; the model returns the updated
  object, which the caller stores back into the Variable record.
\<close>

fun setArrayElement ::
  "val \<Rightarrow> int list \<Rightarrow> val \<Rightarrow> (int \<times> int) list \<Rightarrow> nat \<Rightarrow> thrown + val" where
  "setArrayElement arr [] v dimensions line = Inl TypeError"
| "setArrayElement arr [idx] v dimensions line =
     (case dimensions of
        [] \<Rightarrow> Inl TypeError
      | (lower, upper) # ds \<Rightarrow>
          if idx < lower \<or> idx > upper then Inl (RuntimeError ArrayIndexOutOfBounds line)
          else setProp arr (Index idx) (element True v))"
| "setArrayElement arr (idx # indices) v dimensions line =
     (case dimensions of
        [] \<Rightarrow> Inl TypeError
      | (lower, upper) # ds \<Rightarrow>
          if idx < lower \<or> idx > upper then Inl (RuntimeError ArrayIndexOutOfBounds line)
          else (case getProp arr (Index idx) of
                  Inl t \<Rightarrow> Inl t
                | Inr sub \<Rightarrow>
                    (case setArrayElement sub indices v ds line of
                       Inl t \<Rightarrow> Inl t
                     | Inr sub' \<Rightarrow> setProp arr (Index idx) sub')))"

text \<open>\<open>variable.dimensions!\<close>: a missing list behaves as an empty one, both throw.\<close>

definition dimensions_of :: "Variable \<Rightarrow> (int \<times> int) list" where
  "dimensions_of variable = (case v_dimensions variable of None \<Rightarrow> [] | Some ds \<Rightarrow> ds)"

section \<open>Expressions (interpreter.ts)\<close>

definition evaluateIdentifier :: "Interpreter \<Rightarrow> nat \<Rightarrow> string \<Rightarrow> nat \<Rightarrow> thrown + val" where
  "evaluateIdentifier st context name line =
     (case getVariable st name context of
        None \<Rightarrow> Inl (RuntimeError (VariableNotDeclared name) line)
      | Some r \<Rightarrow>
          if \<not> v_initialized (heap st r)
          then Inl (RuntimeError (UsedBeforeAssignment name) line)
          else Inr (v_value (heap st r)))"

text \<open>
  The \<open>switch\<close> of \<open>evaluateBinaryOp\<close> on the operator, applied to the values of
  the two operands. \<open>=\<close> and \<open><>\<close> are \<open>===\<close> and \<open>!==\<close>.
\<close>

definition binaryOp :: "Host \<Rightarrow> string \<Rightarrow> val \<Rightarrow> val \<Rightarrow> nat \<Rightarrow> thrown + val" where
  "binaryOp h operator left right line =
    (if operator = ''+'' then
       (case (left, right) of (Num a, Num b) \<Rightarrow> Inr (Num (a + b))
        | _ \<Rightarrow> Inl (RuntimeError ArithmeticOnNonNumbers line))
     else if operator = ''-'' then
       (case (left, right) of (Num a, Num b) \<Rightarrow> Inr (Num (a - b))
        | _ \<Rightarrow> Inl (RuntimeError ArithmeticOnNonNumbers line))
     else if operator = ''*'' then
       (case (left, right) of (Num a, Num b) \<Rightarrow> Inr (Num (a * b))
        | _ \<Rightarrow> Inl (RuntimeError ArithmeticOnNonNumbers line))
     else if operator = ''/'' then
       (case (left, right) of
          (Num a, Num b) \<Rightarrow>
            if b = 0 then Inl (RuntimeError DivisionByZero line) else Inr (Num (a / b))
        | _ \<Rightarrow> Inl (RuntimeError ArithmeticOnNonNumbers line))
     else if operator = ''DIV'' then
       (case (left, right) of
          (Num a, Num b) \<Rightarrow>
            if b = 0 then Inl (RuntimeError DivisionByZero line)
            else Inr (Num (Math_floor (a / b)))
        | _ \<Rightarrow> Inl (RuntimeError ArithmeticOnNonNumbers line))
     else if operator = ''MOD'' then
       (case (left, right) of
          (Num a, Num b) \<Rightarrow>
            if b = 0 then Inl (RuntimeError DivisionByZero line) else Inr (Num (js_rem a b))
        | _ \<Rightarrow> Inl (RuntimeError ArithmeticOnNonNumbers line))
     else if operator = ''&'' then
       Inr (Str (valueToString h left @ valueToString h right))
     else if operator = ''='' then Inr (Bool (left = right))
     else if operator = ''<>'' then Inr (Bool (left \<noteq> right))
     else if operator = ''<'' then
       (case (left, right) of (Num a, Num b) \<Rightarrow> Inr (Bool (a < b))
        | (Str a, Str b) \<Rightarrow> Inr (Bool (a < b))
        | _ \<Rightarrow> Inl (RuntimeError InvalidComparison line))
     else if operator = ''>'' then
       (case (left, right) of (Num a, Num b) \<Rightarrow> Inr (Bool (a > b))
        | (Str a, Str b) \<Rightarrow> Inr (Bool (a > b))
        | _ \<Rightarrow> Inl (RuntimeError InvalidComparison line))
     else if operator = ''<='' then
       (case (left, right) of (Num a, Num b) \<Rightarrow> Inr (Bool (a \<le> b))
        | (Str a, Str b) \<Rightarrow> Inr (Bool (a \<le> b))
        | _ \<Rightarrow> Inl (RuntimeError InvalidComparison line))
     else if operator = ''>='' then
       (case (left, right) of (Num a, Num b) \<Rightarrow> Inr (Bool (a \<ge> b))
        | (Str a, Str b) \<Rightarrow> Inr (Bool (a \<ge> b))
        | _ \<Rightarrow> Inl (RuntimeError InvalidComparison line))
     else if operator = ''AND'' then
       (case (left, right) of (Bool a, Bool b) \<Rightarrow> Inr (Bool (a \<and> b))
        | _ \<Rightarrow> Inl (RuntimeError LogicalOperatorsRequireBoolean line))
     else if operator = ''OR'' then
       (case (left, right) of (Bool a, Bool b) \<Rightarrow> Inr (Bool (a \<or> b))
        | _ \<Rightarrow> Inl (RuntimeError LogicalOperatorsRequireBoolean line))
     else Inl (RuntimeError (UnknownOperator operator) line))"

definition unaryOp :: "string \<Rightarrow> val \<Rightarrow> nat \<Rightarrow> thrown + val" where
  "unaryOp operator operand line =
    (if operator = ''-'' then
       (case operand of Num a \<Rightarrow> Inr (Num (- a))
        | _ \<Rightarrow> Inl (RuntimeError CannotNegateNonNumber line))
     else if operator = ''NOT'' then
       (case operand of Bool a \<Rightarrow> Inr (Bool (\<not> a))
        | _ \<Rightarrow> Inl (RuntimeError NotRequiresBoolean line))
     else Inl (RuntimeError (UnknownUnaryOperator operator) line))"

text \<open>
  \<open>evaluateExpression\<close> with \<open>evaluateArrayAccess\<close>, \<open>evaluateBinaryOp\<close> and
  \<open>evaluateUnaryOp\<close>, which evaluate their operands first. \<open>evaluateIndices\<close> is
  \<open>indices.map(...)\<close>: every index must be a number and is floored; its line is the
  line of the node that holds the indices. The four memory kinds reach the
  \<open>default\<close> branch of the \<open>switch\<close>.
\<close>

fun evaluateExpression :: "Host \<Rightarrow> Interpreter \<Rightarrow> nat \<Rightarrow> expr \<Rightarrow> thrown + val"
  and evaluateIndices :: "Host \<Rightarrow> Interpreter \<Rightarrow> nat \<Rightarrow> nat \<Rightarrow> expr list \<Rightarrow> thrown + int list"
  where
  "evaluateExpression h st context (Literal v t line) = Inr v"
| "evaluateExpression h st context (Identifier name line) =
     evaluateIdentifier st context name line"
| "evaluateExpression h st context (ArrayAccess array indices line) =
     (case getVariable st array context of
        None \<Rightarrow> Inl (RuntimeError (ArrayNotDeclared array) line)
      | Some r \<Rightarrow>
          if v_type (heap st r) \<noteq> ''ARRAY'' then Inl (RuntimeError (NotAnArray array) line)
          else (case evaluateIndices h st context line indices of
                  Inl t \<Rightarrow> Inl t
                | Inr idxs \<Rightarrow>
                    getArrayElement (v_value (heap st r)) idxs (dimensions_of (heap st r)) line))"
| "evaluateExpression h st context (BinaryOp operator left right line) =
     (case evaluateExpression h st context left of
        Inl t \<Rightarrow> Inl t
      | Inr l \<Rightarrow>
          (case evaluateExpression h st context right of
             Inl t \<Rightarrow> Inl t
           | Inr r \<Rightarrow> binaryOp h operator l r line))"
| "evaluateExpression h st context (UnaryOp operator operand line) =
     (case evaluateExpression h st context operand of
        Inl t \<Rightarrow> Inl t
      | Inr v \<Rightarrow> unaryOp operator v line)"
| "evaluateExpression h st context (AddressOf target line) =
     Inl (RuntimeError (UnknownExpressionType ''AddressOf'') line)"
| "evaluateExpression h st context (Dereference pointer line) =
     Inl (RuntimeError (UnknownExpressionType ''Dereference'') line)"
| "evaluateExpression h st context (MemoryAllocation sz t line) =
     Inl (RuntimeError (UnknownExpressionType ''MemoryAllocation'') line)"
| "evaluateExpression h st context (SizeOf t line) =
     Inl (RuntimeError (UnknownExpressionType ''SizeOf'') line)"
| "evaluateIndices h st context line [] = Inr []"
| "evaluateIndices h st context line (idx # indices) =
     (case evaluateExpression h st context idx of
        Inl t \<Rightarrow> Inl t
      | Inr v \<Rightarrow>
          (case v of
             Num r \<Rightarrow>
               (case evaluateIndices h st context line indices of
                  Inl t \<Rightarrow> Inl t
                | Inr idxs \<Rightarrow> Inr (\<lfloor>r\<rfloor> # idxs))
           | _ \<Rightarrow> Inl (RuntimeError ArrayIndexMustBeNumber line)))"

section \<open>Statements (interpreter.ts)\<close>

text \<open>
  The outcome of running a statement: it completes in a new state, or it throws and
  leaves a state behind, or the fuel of the model ran out before it finished (a run that
  needs more steps than the fuel given, or that never ends), or it left the model (the
  loop variable of a FOR loop became NaN).
\<close>

datatype outcome =
    Done Interpreter
  | Thrown thrown Interpreter
  | OutOfFuel
  | OutsideModel

definition executeDeclare ::
  "Interpreter \<Rightarrow> nat \<Rightarrow> string \<Rightarrow> DataType \<Rightarrow> (int \<times> int) list option \<Rightarrow> DataType option \<Rightarrow>
     outcome" where
  "executeDeclare st context identifier dataType arrayBounds arrayElementType =
     (if dataType = ''ARRAY'' then
        (case arrayBounds of
           None \<Rightarrow> Thrown TypeError st
         | Some dimensions \<Rightarrow>
             (case createArray dimensions of
                Inl t \<Rightarrow> Thrown t st
              | Inr arr \<Rightarrow>
                  Done (newVariable st context identifier
                    \<lparr> v_type = ''ARRAY'', v_value = arr, v_dimensions = Some dimensions,
                      v_elementType = arrayElementType, v_initialized = False \<rparr>)))
      else
        Done (newVariable st context identifier
          \<lparr> v_type = dataType, v_value = Undefined, v_dimensions = None,
            v_elementType = None, v_initialized = False \<rparr>))"

text \<open>
  \<open>executeAssignment\<close>. The value is evaluated first. A target that is neither an
  identifier nor an array access matches no branch, and nothing happens.
\<close>

definition executeAssignment ::
  "Host \<Rightarrow> Interpreter \<Rightarrow> nat \<Rightarrow> expr \<Rightarrow> expr \<Rightarrow> nat \<Rightarrow> outcome" where
  "executeAssignment h st context target valueExpr line =
     (case evaluateExpression h st context valueExpr of
        Inl t \<Rightarrow> Thrown t st
      | Inr v \<Rightarrow>
          (case target of
             Identifier varName l \<Rightarrow>
               (case getVariable st varName context of
                  None \<Rightarrow> Thrown (RuntimeError (VariableNotDeclared varName) line) st
                | Some r \<Rightarrow> Done (assignVariable st r v))
           | ArrayAccess array indices l \<Rightarrow>
               (case getVariable st array context of
                  None \<Rightarrow> Thrown (RuntimeError (ArrayNotDeclared array) line) st
                | Some r \<Rightarrow>
                    if v_type (heap st r) \<noteq> ''ARRAY''
                    then Thrown (RuntimeError (NotAnArray array) line) st
                    else (case evaluateIndices h st context line indices of
                            Inl t \<Rightarrow> Thrown t st
                          | Inr idxs \<Rightarrow>
                              (case setArrayElement (v_value (heap st r)) idxs v
                                      (dimensions_of (heap st r)) line of
                                 Inl t \<Rightarrow> Thrown t st
                               | Inr arr \<Rightarrow>
                                   Done (st \<lparr> heap := (heap st)
                                     (r := (heap st r) \<lparr> v_value := arr \<rparr>) \<rparr>))))
           | _ \<Rightarrow> Done st))"

text \<open>\<open>executeOutput\<close> yields one line, the parts joined by a space.\<close>

fun evaluateParts :: "Host \<Rightarrow> Interpreter \<Rightarrow> nat \<Rightarrow> expr list \<Rightarrow> thrown + string list" where
  "evaluateParts h st context [] = Inr []"
| "evaluateParts h st context (e # es) =
     (case evaluateExpression h st context e of
        Inl t \<Rightarrow> Inl t
      | Inr v \<Rightarrow>
          (case evaluateParts h st context es of
             Inl t \<Rightarrow> Inl t
           | Inr parts \<Rightarrow> Inr (valueToString h v # parts)))"

definition executeOutput :: "Host \<Rightarrow> Interpreter \<Rightarrow> nat \<Rightarrow> expr list \<Rightarrow> outcome" where
  "executeOutput h st context expressions =
     (case evaluateParts h st context expressions of
        Inl t \<Rightarrow> Thrown t st
      | Inr parts \<Rightarrow> Done (st \<lparr> outputs := outputs st @ [join '' '' parts] \<rparr>))"

text \<open>
  The conversion of an input string by the type of its target: \<open>parseInt(input) || 0\<close>,
  \<open>parseFloat(input) || 0.0\<close>, \<open>input.toLowerCase() === 'true'\<close>, or the string
  itself.
\<close>

definition convertInput :: "Host \<Rightarrow> DataType \<Rightarrow> string \<Rightarrow> val" where
  "convertInput h t input =
     (if t = ''INTEGER'' then
        Num (case parseInt h input of None \<Rightarrow> 0 | Some n \<Rightarrow> if n = 0 then 0 else n)
      else if t = ''REAL'' then
        Num (case parseFloat h input of None \<Rightarrow> 0 | Some x \<Rightarrow> if x = 0 then 0 else x)
      else if t = ''BOOLEAN'' then Bool (toLowerCase input = ''true'')
      else Str input)"

definition executeInput :: "Host \<Rightarrow> Interpreter \<Rightarrow> nat \<Rightarrow> expr \<Rightarrow> nat \<Rightarrow> outcome" where
  "executeInput h st context target line =
     (case target of
        Identifier varName l \<Rightarrow>
          (case getVariable st varName context of
             None \<Rightarrow> Thrown (RuntimeError (VariableNotDeclared varName) line) st
           | Some r \<Rightarrow>
               let input = inputHandler h (inputCount st) varName (v_type (heap st r));
                   v = convertInput h (v_type (heap st r)) input;
                   st1 = assignVariable (st \<lparr> inputCount := inputCount st + 1 \<rparr>) r v
               in Done (st1 \<lparr> outputs := outputs st1 @ [input] \<rparr>))
      | ArrayAccess array indices l \<Rightarrow>
          (case getVariable st array context of
             None \<Rightarrow> Thrown (RuntimeError (ArrayNotDeclared array) line) st
           | Some r \<Rightarrow>
               if v_type (heap st r) \<noteq> ''ARRAY''
               then Thrown (RuntimeError (NotAnArray array) line) st
               else (case evaluateIndices h st context line indices of
                       Inl t \<Rightarrow> Thrown t st
                     | Inr idxs \<Rightarrow>
                         let elementType = (case v_elementType (heap st r) of
                                              None \<Rightarrow> ''STRING''
                                            | Some t \<Rightarrow> if t = [] then ''STRING'' else t);
                             promptName = array @ ''['' @
                               join '', '' (map (\<lambda>i. numberToString h (of_int i)) idxs) @ '']'';
                             input = inputHandler h (inputCount st) promptName elementType;
                             v = convertInput h elementType input;
                             st1 = st \<lparr> inputCount := inputCount st + 1 \<rparr>
                         in (case setArrayElement (v_value (heap st r)) idxs v
                                    (dimensions_of (heap st r)) line of
                               Inl t \<Rightarrow> Thrown t st1
                             | Inr arr \<Rightarrow>
                                 Done (st1 \<lparr> heap := (heap st1)
                                          (r := (heap st1 r) \<lparr> v_value := arr \<rparr>),
                                        outputs := outputs st1 @ [input] \<rparr>))))
      | _ \<Rightarrow> Done st)"

text \<open>
  The parameter binding loop of \<open>executeProcedure\<close>: a BYREF parameter is bound to the
  Variable record of the caller's identifier, a BYVAL parameter to a new record that
  holds the value of the argument. The arguments are evaluated in the caller's context.
\<close>

fun bindParameters ::
  "Host \<Rightarrow> Interpreter \<Rightarrow> nat \<Rightarrow> nat \<Rightarrow> Parameter list \<Rightarrow> expr list \<Rightarrow> nat \<Rightarrow> outcome" where
  "bindParameters h st localContext callerContext [] args callLine = Done st"
| "bindParameters h st localContext callerContext (param # params) [] callLine =
     Thrown TypeError st"
| "bindParameters h st localContext callerContext (param # params) (arg # args) callLine =
     (if byRef param then
        (case arg of
           Identifier varName l \<Rightarrow>
             (case getVariable st varName callerContext of
                None \<Rightarrow> Thrown (RuntimeError (VariableNotFound varName) callLine) st
              | Some r \<Rightarrow>
                  bindParameters h (bindVariable st localContext (p_name param) r)
                    localContext callerContext params args callLine)
         | _ \<Rightarrow> Thrown (RuntimeError ByRefParameterMustBeVariable callLine) st)
      else
        (case evaluateExpression h st callerContext arg of
           Inl t \<Rightarrow> Thrown t st
         | Inr v \<Rightarrow>
             bindParameters h
               (newVariable st localContext (p_name param)
                  \<lparr> v_type = p_type param, v_value = v, v_dimensions = None,
                    v_elementType = None, v_initialized = True \<rparr>)
               localContext callerContext params args callLine))"

text \<open>The \<open>finally\<close> block of \<open>executeProcedure\<close>.\<close>

definition leaveProcedure :: "Interpreter \<Rightarrow> Interpreter" where
  "leaveProcedure st =
     st \<lparr> callStack := butlast (callStack st), recursionDepth := recursionDepth st - 1 \<rparr>"

text \<open>
  The statement executor. Statements recurse (a block runs statements, a loop runs its
  body again, a call runs a procedure body) and a run need not end, so the executor is
  defined by recursion on a fuel. The four places where the source re-enters the
  executor are the tasks: the dispatch \<open>executeNode\<close> of one statement, and the next
  test of a WHILE, REPEAT or FOR loop. Each source function takes as its first argument
  \<open>rec\<close>, the executor with one unit of fuel less, and \<open>run\<close> ties the knot. A run
  that does not end within the fuel is \<open>OutOfFuel\<close>.
\<close>

datatype task =
    ExecuteNode nat stmt
  | WhileLoop nat expr "stmt list" nat
  | RepeatLoop nat "stmt list" expr nat
  | ForLoop nat nat bool rat rat "stmt list"

type_synonym executor = "task \<Rightarrow> Interpreter \<Rightarrow> outcome"

text \<open>\<open>for (const stmt of block) yield* this.executeNode(stmt, context)\<close>.\<close>

fun executeBlock :: "executor \<Rightarrow> Interpreter \<Rightarrow> nat \<Rightarrow> stmt list \<Rightarrow> outcome" where
  "executeBlock rec st context [] = Done st"
| "executeBlock rec st context (stmt # rest) =
     (case rec (ExecuteNode context stmt) st of
        Done st' \<Rightarrow> executeBlock rec st' context rest
      | other \<Rightarrow> other)"

text \<open>The loop over the ELSE IF blocks and the ELSE block after it.\<close>

fun executeElseIfs ::
  "executor \<Rightarrow> Host \<Rightarrow> Interpreter \<Rightarrow> nat \<Rightarrow> (expr \<times> stmt list) list \<Rightarrow> stmt list option \<Rightarrow>
     nat \<Rightarrow> outcome" where
  "executeElseIfs rec h st context [] elseBlock line =
     (case elseBlock of
        Some block \<Rightarrow> executeBlock rec st context block
      | None \<Rightarrow> Done st)"
| "executeElseIfs rec h st context ((condition, block) # rest) elseBlock line =
     (case evaluateExpression h st context condition of
        Inl t \<Rightarrow> Thrown t st
      | Inr c \<Rightarrow>
          (case c of
             Bool b \<Rightarrow>
               if b then executeBlock rec st context block
               else executeElseIfs rec h st context rest elseBlock line
           | _ \<Rightarrow> Thrown (RuntimeError ElseIfConditionMustBeBoolean line) st))"

definition executeIf ::
  "executor \<Rightarrow> Host \<Rightarrow> Interpreter \<Rightarrow> nat \<Rightarrow> expr \<Rightarrow> stmt list \<Rightarrow>
     (expr \<times> stmt list) list option \<Rightarrow> stmt list option \<Rightarrow> nat \<Rightarrow> outcome" where
  "executeIf rec h st context condition thenBlock elseIfBlocks elseBlock line =
     (case evaluateExpression h st context condition of
        Inl t \<Rightarrow> Thrown t st
      | Inr c \<Rightarrow>
          (case c of
             Bool b \<Rightarrow>
               if b then executeBlock rec st context thenBlock
               else (case elseIfBlocks of
                       Some blocks \<Rightarrow> executeElseIfs rec h st context blocks elseBlock line
                     | None \<Rightarrow>
                         (case elseBlock of
                            Some block \<Rightarrow> executeBlock rec st context block
                          | None \<Rightarrow> Done st))
           | _ \<Rightarrow> Thrown (RuntimeError IfConditionMustBeBoolean line) st))"

text \<open>One test of the WHILE loop, its body, and the loop again.\<close>

definition executeWhile ::
  "executor \<Rightarrow> Host \<Rightarrow> Interpreter \<Rightarrow> nat \<Rightarrow> expr \<Rightarrow> stmt list \<Rightarrow> nat \<Rightarrow> outcome" where
  "executeWhile rec h st context condition body line =
     (case evaluateExpression h st context condition of
        Inl t \<Rightarrow> Thrown t st
      | Inr c \<Rightarrow>
          (case c of
             Bool b \<Rightarrow>
               if \<not> b then Done st
               else (case executeBlock rec st context body of
                       Done st' \<Rightarrow> rec (WhileLoop context condition body line) st'
                     | other \<Rightarrow> other)
           | _ \<Rightarrow> Thrown (RuntimeError WhileConditionMustBeBoolean line) st))"

definition executeRepeat ::
  "executor \<Rightarrow> Host \<Rightarrow> Interpreter \<Rightarrow> nat \<Rightarrow> stmt list \<Rightarrow> expr \<Rightarrow> nat \<Rightarrow> outcome" where
  "executeRepeat rec h st context body condition line =
     (case executeBlock rec st context body of
        Done st' \<Rightarrow>
          (case evaluateExpression h st' context condition of
             Inl t \<Rightarrow> Thrown t st'
           | Inr c \<Rightarrow>
               (case c of
                  Bool b \<Rightarrow>
                    if b then Done st'
                    else rec (RepeatLoop context body condition line) st'
                | _ \<Rightarrow> Thrown (RuntimeError UntilConditionMustBeBoolean line) st'))
      | other \<Rightarrow> other)"

text \<open>
  The \<open>while\<close> loop of \<open>executeFor\<close> on the Variable record \<open>r\<close>: upwards
  (\<open>variable.value <= end\<close>) when \<open>up\<close> holds, downwards otherwise. After the body
  the variable is advanced by \<open>Math.floor(step)\<close>.
\<close>

definition forLoop ::
  "executor \<Rightarrow> Host \<Rightarrow> Interpreter \<Rightarrow> nat \<Rightarrow> nat \<Rightarrow> bool \<Rightarrow> rat \<Rightarrow> rat \<Rightarrow> stmt list \<Rightarrow> outcome"
  where
  "forLoop rec h st context r up e k body =
     (if (if up then js_le h (v_value (heap st r)) e else js_ge h (v_value (heap st r)) e)
      then
        (case executeBlock rec st context body of
           Done st' \<Rightarrow>
             (case js_plus h (v_value (heap st' r)) (Math_floor k) of
                None \<Rightarrow> OutsideModel
              | Some v \<Rightarrow>
                  rec (ForLoop context r up e k body)
                    (st' \<lparr> heap := (heap st')(r := (heap st' r) \<lparr> v_value := v \<rparr>) \<rparr>))
         | other \<Rightarrow> other)
      else Done st)"

text \<open>
  The head of \<open>executeFor\<close>: the loop variable is looked up and, when it does not
  exist, declared in the current context as an INTEGER. The result is the state after
  that and the Variable record of the loop variable.
\<close>

definition autoDeclare :: "Interpreter \<Rightarrow> nat \<Rightarrow> string \<Rightarrow> Interpreter \<times> nat" where
  "autoDeclare st context variable =
     (case getVariable st variable context of
        Some r \<Rightarrow> (st, r)
      | None \<Rightarrow>
          (newVariable st context variable
             \<lparr> v_type = ''INTEGER'', v_value = Num 0, v_dimensions = None,
               v_elementType = None, v_initialized = False \<rparr>,
           nextRef st))"

definition executeFor ::
  "executor \<Rightarrow> Host \<Rightarrow> Interpreter \<Rightarrow> nat \<Rightarrow> string \<Rightarrow> expr \<Rightarrow> expr \<Rightarrow> expr \<Rightarrow> stmt list \<Rightarrow>
     nat \<Rightarrow> outcome" where
  "executeFor rec h st context variable start end step body line =
     (let (st1, r) = autoDeclare st context variable
      in
      case evaluateExpression h st1 context start of
        Inl t \<Rightarrow> Thrown t st1
      | Inr startV \<Rightarrow>
          (case evaluateExpression h st1 context end of
             Inl t \<Rightarrow> Thrown t st1
           | Inr endV \<Rightarrow>
               (case evaluateExpression h st1 context step of
                  Inl t \<Rightarrow> Thrown t st1
                | Inr stepV \<Rightarrow>
                    (case (startV, endV, stepV) of
                       (Num s, Num e, Num k) \<Rightarrow>
                         if k = 0 then Thrown (RuntimeError ForStepCannotBeZero line) st1
                         else
                           let st2 = assignVariable st1 r (Num (Math_floor s)) in
                           if k > 0 then forLoop rec h st2 context r True e k body
                           else forLoop rec h st2 context r False e k body
                     | _ \<Rightarrow> Thrown (RuntimeError ForBoundsMustBeNumbers line) st1))))"

definition executeProcedure ::
  "executor \<Rightarrow> Host \<Rightarrow> Interpreter \<Rightarrow> string \<Rightarrow> Parameter list \<Rightarrow> stmt list \<Rightarrow> expr list \<Rightarrow>
     nat \<Rightarrow> nat \<Rightarrow> outcome" where
  "executeProcedure rec h st name params body args callerContext callLine =
     (if length args \<noteq> length params
      then Thrown (RuntimeError (IncorrectNumberOfArguments name) callLine) st
      else
        let st1 = st \<lparr> recursionDepth := recursionDepth st + 1 \<rparr> in
        if recursionDepth st1 > MAX_RECURSION_DEPTH
        then Thrown (RuntimeError MaximumRecursionDepthExceeded callLine) st1
        else
          let localContext = nextContext st1;
              st2 = st1 \<lparr> contexts := (contexts st1)(localContext := Map.empty),
                          nextContext := localContext + 1 \<rparr>
          in
          (case bindParameters h st2 localContext callerContext params args callLine of
             Done st3 \<Rightarrow>
               (case executeBlock rec
                       (st3 \<lparr> callStack := callStack st3 @ [(name, callLine, ''procedure'')] \<rparr>)
                       localContext body of
                  Done st4 \<Rightarrow> Done (leaveProcedure st4)
                | Thrown t st4 \<Rightarrow> Thrown t (leaveProcedure st4)
                | other \<Rightarrow> other)
           | other \<Rightarrow> other))"

definition executeCall ::
  "executor \<Rightarrow> Host \<Rightarrow> Interpreter \<Rightarrow> nat \<Rightarrow> string \<Rightarrow> expr list \<Rightarrow> nat \<Rightarrow> outcome" where
  "executeCall rec h st context name args line =
     (case procedures st name of
        Some (pname, params, body, pline) \<Rightarrow>
          executeProcedure rec h st pname params body args context line
      | None \<Rightarrow> Thrown (RuntimeError (ProcedureNotFound name) line) st)"

definition executeNode :: "executor \<Rightarrow> Host \<Rightarrow> Interpreter \<Rightarrow> nat \<Rightarrow> stmt \<Rightarrow> outcome" where
  "executeNode rec h st context node =
     (let st1 = st \<lparr> iterationCount := iterationCount st + 1 \<rparr> in
      if iterationCount st1 > MAX_ITERATIONS
      then Thrown (RuntimeError ExecutionTimeout (stmt_line node)) st1
      else
        (case node of
           Declare identifier dataType arrayBounds arrayElementType line \<Rightarrow>
             executeDeclare st1 context identifier dataType arrayBounds arrayElementType
         | Assignment target valueExpr line \<Rightarrow>
             executeAssignment h st1 context target valueExpr line
         | Output expressions line \<Rightarrow> executeOutput h st1 context expressions
         | Input target line \<Rightarrow> executeInput h st1 context target line
         | If condition thenBlock elseIfBlocks elseBlock line \<Rightarrow>
             executeIf rec h st1 context condition thenBlock elseIfBlocks elseBlock line
         | While condition body line \<Rightarrow> executeWhile rec h st1 context condition body line
         | Repeat body condition line \<Rightarrow> executeRepeat rec h st1 context body condition line
         | For variable start end step body line \<Rightarrow>
             executeFor rec h st1 context variable start end step body line
         | Call name args line \<Rightarrow> executeCall rec h st1 context name args line
         | Return valueExpr line \<Rightarrow>
             (case evaluateExpression h st1 context valueExpr of
                Inl t \<Rightarrow> Thrown t st1
              | Inr v \<Rightarrow> Thrown (ReturnValue v) st1)
         | Procedure name params body line \<Rightarrow>
             Thrown (RuntimeError (UnknownNodeType ''Procedure'') line) st1))"

primrec run :: "nat \<Rightarrow> Host \<Rightarrow> task \<Rightarrow> Interpreter \<Rightarrow> outcome" where
  "run 0 h t st = OutOfFuel"
| "run (Suc n) h t st =
     (case t of
        ExecuteNode context node \<Rightarrow> executeNode (run n h) h st context node
      | WhileLoop context condition body line \<Rightarrow>
          executeWhile (run n h) h st context condition body line
      | RepeatLoop context body condition line \<Rightarrow>
          executeRepeat (run n h) h st context body condition line
      | ForLoop context r up e k body \<Rightarrow> forLoop (run n h) h st context r up e k body)"

text \<open>
  \<open>execute\<close>: the first pass registers the procedures, the second pass runs every other
  statement of the program in the global context.
\<close>

fun registerProcedures :: "Interpreter \<Rightarrow> stmt list \<Rightarrow> Interpreter" where
  "registerProcedures st [] = st"
| "registerProcedures st (node # ast) =
     (case node of
        Procedure name params body line \<Rightarrow>
          registerProcedures
            (st \<lparr> procedures := (procedures st)(name \<mapsto> (name, params, body, line)) \<rparr>) ast
      | _ \<Rightarrow> registerProcedures st ast)"

definition isProcedure :: "stmt \<Rightarrow> bool" where
  "isProcedure node = (case node of Procedure name params body line \<Rightarrow> True | _ \<Rightarrow> False)"

definition execute :: "nat \<Rightarrow> Host \<Rightarrow> Interpreter \<Rightarrow> stmt list \<Rightarrow> outcome" where
  "execute n h st ast =
     executeBlock (run n h) (registerProcedures st ast) 0
       (filter (\<lambda>node. \<not> isProcedure node) ast)"

definition executeProgram :: "nat \<Rightarrow> Host \<Rightarrow> stmt list \<Rightarrow> outcome" where
  "executeProgram n h ast = execute n h new_Interpreter ast"

text \<open>
  An environment for the examples: a number prints as the decimal digits of its integer
  part (which is what \<open>String\<close> gives for an integer), no input string parses as a
  number, and the input handler always answers \<open>abc\<close>.
\<close>

fun decimal :: "nat \<Rightarrow> nat \<Rightarrow> string" where
  "decimal 0 n = []"
| "decimal (Suc fuel) n =
     (if n < 10 then [char_of (48 + n)]
      else decimal fuel (n div 10) @ [char_of (48 + n mod 10)])"

definition example_numberToString :: "rat \<Rightarrow> string" where
  "example_numberToString x =
     (if x < 0 then ''-'' else []) @ decimal 400 (nat \<bar>\<lfloor>x\<rfloor>\<bar>)"

definition example_host :: Host where
  "example_host =
     \<lparr> parseInt = (\<lambda>s. None), parseFloat = (\<lambda>s. None), stringToNumber = (\<lambda>s. None),
       numberToString = example_numberToString, inputHandler = (\<lambda>n name t. ''abc'') \<rparr>"

section \<open>Example states and programs\<close>

text \<open>A state in which the global BOOLEAN variable \<open>flag\<close> is declared.\<close>

definition C10_state :: Interpreter where
  "C10_state = newVariable new_Interpreter 0 ''flag''
     \<lparr> v_type = ''BOOLEAN'', v_value = Undefined, v_dimensions = None,
       v_elementType = None, v_initialized = False \<rparr>"

text \<open>
  The program of the pointer aliasing property. The parser rejects a statement that
  starts with \<open>*\<close>, so the write through the pointer is given as the Assignment node
  that the property is about.
  \<^verbatim>\<open>
  DECLARE x : INTEGER
  DECLARE p : POINTER_TO_INTEGER
  DECLARE q : POINTER_TO_INTEGER
  p <-- &x
  q <-- p
  *q <-- 5
  OUTPUT x
  \<close>
\<close>

definition pointer_program :: "stmt list" where
  "pointer_program =
     [Declare ''x'' ''INTEGER'' None None 1,
      Declare ''p'' ''POINTER_TO_INTEGER'' None None 2,
      Declare ''q'' ''POINTER_TO_INTEGER'' None None 3,
      Assignment (Identifier ''p'' 4) (AddressOf (Identifier ''x'' 4) 4) 4,
      Assignment (Identifier ''q'' 5) (Identifier ''p'' 5) 5,
      Assignment (Dereference (Identifier ''q'' 6) 6) (Literal (Num 5) ''INTEGER'' 6) 6,
      Output [Identifier ''x'' 7] 7]"














lemma fold_insert_range:
  "x \<in> fold (\<lambda>i s. insert (a + int i) s) [0..<n] S \<longleftrightarrow>
     x \<in> S \<or> (a \<le> x \<and> x < a + int n)"
proof (induction n)
  case 0
  show ?case by auto
next
  case (Suc n)
  have "x = a + int n \<or> a \<le> x \<and> x < a + int n \<longleftrightarrow> a \<le> x \<and> x < a + int (Suc n)"
    by auto
  with Suc show ?case by auto
qed

lemma allocated_markAllocated:
  "x \<in> allocated (markAllocated m a sz t) \<longleftrightarrow>
     x \<in> allocated m \<or> (a \<le> x \<and> x < a + int (nat sz))"
  by (simp add: markAllocated_def fold_insert_range)

lemma fold_clear_fields:
  "memorySize (fold (\<lambda>i m. m \<lparr> allocated := allocated m - {a + int i},
                               ram := (ram m)(a + int i := Undefined) \<rparr>) [0..<n] m) = memorySize m"
  "nextFreeAddress (fold (\<lambda>i m. m \<lparr> allocated := allocated m - {a + int i},
                               ram := (ram m)(a + int i := Undefined) \<rparr>) [0..<n] m) = nextFreeAddress m"
  "allocations (fold (\<lambda>i m. m \<lparr> allocated := allocated m - {a + int i},
                               ram := (ram m)(a + int i := Undefined) \<rparr>) [0..<n] m) = allocations m"
  by (induction n) simp_all

lemma fold_clear_allocated:
  "x \<in> allocated (fold (\<lambda>i m. m \<lparr> allocated := allocated m - {a + int i},
                               ram := (ram m)(a + int i := Undefined) \<rparr>) [0..<n] m) \<longleftrightarrow>
     x \<in> allocated m \<and> \<not> (a \<le> x \<and> x < a + int n)"
proof (induction n)
  case 0
  show ?case by auto
next
  case (Suc n)
  have "x = a + int n \<or> a \<le> x \<and> x < a + int n \<longleftrightarrow> a \<le> x \<and> x < a + int (Suc n)"
    by auto
  with Suc show ?case by auto
qed

lemma not_free_run_obstruction:
  assumes "a + int i \<in> allocated m" "i < nat sz" "a \<le> c" "c \<le> a + int i"
  shows "\<not> free_run m sz c"
proof -
  let ?k = "nat (a + int i - c)"
  from assms have "?k < nat sz" "c + int ?k = a + int i" by auto
  with assms(1) show ?thesis
    unfolding free_run_def by (metis atLeast0LessThan lessThan_iff set_upt)
qed

lemma find_None_free_run:
  "find (\<lambda>i. a + int i \<in> allocated m) [0..<nat sz] = None \<Longrightarrow> free_run m sz a"
  by (auto simp: find_None_iff free_run_def)

lemma findFreeBlock_from_Inr:
  "findFreeBlock_from m sz a = Inr b \<Longrightarrow>
     a \<le> b \<and> b + sz \<le> memorySize m \<and> free_run m sz b \<and>
     (\<forall>c. a \<le> c \<and> c < b \<longrightarrow> \<not> free_run m sz c)"
proof (induction m sz a rule: findFreeBlock_from.induct)
  case (1 m sz address)
  show ?case
  proof (cases "address + sz \<le> memorySize m")
    case False
    with "1.prems" show ?thesis by (simp add: findFreeBlock_from.simps[of m sz address])
  next
    case le: True
    show ?thesis
    proof (cases "find (\<lambda>i. address + int i \<in> allocated m) [0..<nat sz]")
      case None
      with le "1.prems" have "b = address"
        by (simp add: findFreeBlock_from.simps[of m sz address])
      with None le show ?thesis by (simp add: find_None_free_run)
    next
      case (Some i)
      with le "1.prems" have r: "findFreeBlock_from m sz (address + int i + 1) = Inr b"
        by (simp add: findFreeBlock_from.simps[of m sz address])
      from "1.IH"[OF le Some r] have ih: "address + int i + 1 \<le> b" "b + sz \<le> memorySize m"
        "free_run m sz b" "\<forall>c. address + int i + 1 \<le> c \<and> c < b \<longrightarrow> \<not> free_run m sz c"
        by auto
      from Some have i: "i < nat sz" "address + int i \<in> allocated m"
        by (auto simp: find_Some_iff)
      have "\<not> free_run m sz c" if "address \<le> c" "c < b" for c
      proof (cases "c \<le> address + int i")
        case True
        with i that show ?thesis by (intro not_free_run_obstruction[of address i m sz c]) auto
      next
        case False
        with ih(4) that show ?thesis by auto
      qed
      with ih show ?thesis by auto
    qed
  qed
qed

lemma findFreeBlock_from_Inl:
  "findFreeBlock_from m sz a = Inl e \<Longrightarrow>
     e = NoContiguousBlock sz \<and>
     (\<forall>c. a \<le> c \<and> c + sz \<le> memorySize m \<longrightarrow> \<not> free_run m sz c)"
proof (induction m sz a rule: findFreeBlock_from.induct)
  case (1 m sz address)
  show ?case
  proof (cases "address + sz \<le> memorySize m")
    case False
    with "1.prems" show ?thesis by (auto simp add: findFreeBlock_from.simps[of m sz address])
  next
    case le: True
    show ?thesis
    proof (cases "find (\<lambda>i. address + int i \<in> allocated m) [0..<nat sz]")
      case None
      with le "1.prems" show ?thesis
        by (simp add: findFreeBlock_from.simps[of m sz address])
    next
      case (Some i)
      with le "1.prems" have r: "findFreeBlock_from m sz (address + int i + 1) = Inl e"
        by (simp add: findFreeBlock_from.simps[of m sz address])
      from "1.IH"[OF le Some r] have ih: "e = NoContiguousBlock sz"
        "\<forall>c. address + int i + 1 \<le> c \<and> c + sz \<le> memorySize m \<longrightarrow> \<not> free_run m sz c"
        by auto
      from Some have i: "i < nat sz" "address + int i \<in> allocated m"
        by (auto simp: find_Some_iff)
      have "\<not> free_run m sz c" if "address \<le> c" "c + sz \<le> memorySize m" for c
      proof (cases "c \<le> address + int i")
        case True
        with i that show ?thesis by (intro not_free_run_obstruction[of address i m sz c]) auto
      next
        case False
        with ih(2) that show ?thesis by auto
      qed
      with ih show ?thesis by auto
    qed
  qed
qed

lemma allocate_Inr:
  assumes "allocate m sz t = Inr (a, m')"
  shows "0 < sz" "findFreeBlock_from m sz (nextFreeAddress m) = Inr a"
    "m' = markAllocated m a sz t"
  using assms by (auto simp: allocate_def findFreeBlock_def split: if_splits sum.splits)

lemma recalculate_ge:
  "SYSTEM_RESERVED \<le> b \<Longrightarrow>
   b \<le> fold (\<lambda>(address, (sz, type)) maxEnd. max maxEnd (address + sz)) al b"
proof (induction al arbitrary: b)
  case Nil
  show ?case by simp
next
  case (Cons x al)
  obtain address sz type where x: "x = (address, (sz, type))" by (cases x) auto
  have "max b (address + sz) \<le>
      fold (\<lambda>(address, (sz, type)) maxEnd. max maxEnd (address + sz)) al (max b (address + sz))"
    using Cons.prems by (intro Cons.IH) simp
  then show ?case by (simp add: x)
qed

lemma free_Inr:
  assumes "free m a = Inr m'"
  shows "\<exists>sz t. map_of (allocations m) a = Some (sz, t) \<and>
    (\<forall>x. x \<in> allocated m' \<longleftrightarrow> x \<in> allocated m \<and> \<not> (a \<le> x \<and> x < a + int (nat sz))) \<and>
    memorySize m' = memorySize m \<and>
    (SYSTEM_RESERVED \<le> nextFreeAddress m \<longrightarrow> SYSTEM_RESERVED \<le> nextFreeAddress m')"
proof -
  from assms obtain sz t where al: "map_of (allocations m) a = Some (sz, t)"
    by (auto simp: free_def split: option.splits)
  let ?m1 = "fold (\<lambda>i m. m \<lparr> allocated := allocated m - {a + int i},
                               ram := (ram m)(a + int i := Undefined) \<rparr>) [0..<nat sz] m"
  let ?m2 = "?m1 \<lparr> allocations := AList.delete a (allocations ?m1) \<rparr>"
  from assms al have m': "m' = (if a + sz \<ge> nextFreeAddress ?m2
                  then recalculateNextFreeAddress ?m2 else ?m2)"
    by (simp add: free_def Let_def)
  have 1: "x \<in> allocated m' \<longleftrightarrow> x \<in> allocated m \<and> \<not> (a \<le> x \<and> x < a + int (nat sz))" for x
    by (simp add: m' recalculateNextFreeAddress_def fold_clear_allocated)
  have 2: "memorySize m' = memorySize m"
    by (simp add: m' recalculateNextFreeAddress_def fold_clear_fields)
  have 3: "SYSTEM_RESERVED \<le> nextFreeAddress m'" if "SYSTEM_RESERVED \<le> nextFreeAddress m"
    using that recalculate_ge[of SYSTEM_RESERVED "AList.delete a (allocations m)"]
    by (simp add: m' recalculateNextFreeAddress_def fold_clear_fields)
  from al 1 2 3 show ?thesis by blast
qed

lemma arena_reachable_watermark:
  "arena_reachable m \<Longrightarrow> SYSTEM_RESERVED \<le> nextFreeAddress m"
proof (induction rule: arena_reachable.induct)
  case (init sz)
  show ?case by (simp add: new_MemoryEngine_def)
next
  case (alloc m sz t a m')
  from allocate_Inr(3)[OF alloc.hyps(2)] alloc.IH show ?case
    by (simp add: markAllocated_def)
next
  case (freed m a m')
  from free_Inr[OF freed.hyps(2)] freed.IH show ?case by blast
next
  case (written m a v m')
  then show ?case by (auto simp: mem_write_def split: if_splits)
qed

lemma find_False: "find (\<lambda>_. False) xs = None"
  by (induction xs) auto

lemma allocate_fresh:
  "allocate (new_MemoryEngine 65536) 1 ''INTEGER'' =
     Inr (1024, markAllocated (new_MemoryEngine 65536) 1024 1 ''INTEGER'')"
  by (simp add: allocate_def findFreeBlock_def findFreeBlock_from.simps
        new_MemoryEngine_def SYSTEM_RESERVED_def find_False)

lemma allocate_second:
  "allocate (markAllocated (new_MemoryEngine 65536) 1024 1 ''INTEGER'') 1 ''INTEGER'' =
     Inr (1025, markAllocated (markAllocated (new_MemoryEngine 65536) 1024 1 ''INTEGER'')
                  1025 1 ''INTEGER'')"
  by (simp add: allocate_def findFreeBlock_def findFreeBlock_from.simps
        markAllocated_def new_MemoryEngine_def SYSTEM_RESERVED_def find_False)

lemma free_first_block:
  "free (markAllocated (markAllocated (new_MemoryEngine 65536) 1024 1 ''INTEGER'')
           1025 1 ''INTEGER'') 1024 =
     Inr \<lparr> ram = (\<lambda>_. Undefined)(1024 := Undefined), allocated = {1025},
           allocations = [(1025, (1, ''INTEGER''))], nextFreeAddress = 1026,
           memorySize = 65536 \<rparr>"
  by (simp add: free_def Let_def markAllocated_def new_MemoryEngine_def SYSTEM_RESERVED_def
        insert_Diff_if)

lemma hole_arena_eq:
  "hole_arena =
     \<lparr> ram = (\<lambda>_. Undefined)(1024 := Undefined), allocated = {1025},
       allocations = [(1025, (1, ''INTEGER''))], nextFreeAddress = 1026,
       memorySize = 65536 \<rparr>"
  by (simp add: hole_arena_def allocate_fresh allocate_second free_first_block)

lemma hole_arena_free:
  "free (markAllocated (markAllocated (new_MemoryEngine 65536) 1024 1 ''INTEGER'')
           1025 1 ''INTEGER'') 1024 = Inr hole_arena"
  by (simp only: hole_arena_eq free_first_block)

lemma hole_arena_fields:
  "allocated hole_arena = {1025}" "nextFreeAddress hole_arena = 1026"
  "memorySize hole_arena = 65536"
  by (simp_all add: hole_arena_eq)

lemma hole_arena_reachable: "arena_reachable hole_arena"
  by (rule arena_reachable.freed[OF arena_reachable.alloc[OF arena_reachable.alloc[OF
    arena_reachable.init allocate_fresh] allocate_second] hole_arena_free])

lemma allocate_hole:
  "map_sum id fst (allocate hole_arena 1 ''INTEGER'') = Inr 1026"
  by (simp add: hole_arena_fields allocate_def findFreeBlock_def findFreeBlock_from.simps
      find_False)

text \<open>
  C3. For an address \<open>a\<close> returned by a successful \<open>allocate(n, t)\<close> on a reachable
  arena: \<open>write(a, v)\<close> succeeds, a \<open>read(a)\<close> right after it returns \<open>v\<close>,
  \<open>free(a)\<close> then succeeds, and a \<open>read(a)\<close> after the free fails with the
  not-allocated error.
\<close>

theorem memory_round_trip:
  assumes "arena_reachable m" and "allocate m n t = Inr (a, m1)"
  shows "\<exists>m2 m3. mem_write m1 a v = Inr m2 \<and> read m2 a = Inr v \<and>
           free m2 a = Inr m3 \<and> read m3 a = Inl (ReadNotAllocated a)"
proof -
  note al = allocate_Inr[OF assms(2)]
  from findFreeBlock_from_Inr[OF al(2)]
  have a: "nextFreeAddress m \<le> a" "a + n \<le> memorySize m" by auto
  from arena_reachable_watermark[OF assms(1)] a(1) have a0: "0 \<le> a"
    by (simp add: SYSTEM_RESERVED_def)
  have size1: "memorySize m1 = memorySize m"
    by (simp add: al(3) markAllocated_def)
  have in1: "a \<in> allocated m1"
    using al(1) by (simp add: al(3) allocated_markAllocated)
  let ?m2 = "m1 \<lparr> ram := (ram m1)(a := v) \<rparr>"
  from a0 a(2) al(1) size1 in1 have w: "mem_write m1 a v = Inr ?m2"
    by (simp add: mem_write_def)
  from a0 a(2) al(1) size1 in1 have r: "read ?m2 a = Inr v"
    by (simp add: read_def)
  have nt: "map_of (allocations ?m2) a = Some (n, t)"
    by (simp add: al(3) markAllocated_def update_conv')
  then obtain m3 where f: "free ?m2 a = Inr m3"
    by (simp add: free_def Let_def)
  from free_Inr[OF f] obtain sz' t' where
    f1: "map_of (allocations ?m2) a = Some (sz', t')"
    and f2: "\<forall>x. x \<in> allocated m3 \<longleftrightarrow>
               x \<in> allocated ?m2 \<and> \<not> (a \<le> x \<and> x < a + int (nat sz'))"
    and f3: "memorySize m3 = memorySize ?m2"
    by blast
  from f1 nt have "sz' = n" by simp
  with f2 f3 al(1) size1 have "a \<notin> allocated m3" "memorySize m3 = memorySize m"
    by simp_all
  with a0 a(2) al(1) have "read m3 a = Inl (ReadNotAllocated a)"
    by (simp add: read_def)
  with w r f show ?thesis by blast
qed

theorem memory_round_trip_witness:
  "arena_reachable (new_MemoryEngine 65536) \<and>
   allocate (new_MemoryEngine 65536) 1 ''INTEGER'' =
     Inr (1024, markAllocated (new_MemoryEngine 65536) 1024 1 ''INTEGER'') \<and>
   (\<exists>m2 m3. mem_write (markAllocated (new_MemoryEngine 65536) 1024 1 ''INTEGER'') 1024 (Num 7) = Inr m2 \<and>
      read m2 1024 = Inr (Num 7) \<and> free m2 1024 = Inr m3 \<and>
      read m3 1024 = Inl (ReadNotAllocated 1024))"
proof -
  have r: "arena_reachable (new_MemoryEngine 65536)"
    by (rule arena_reachable.init)
  from r allocate_fresh memory_round_trip[OF r allocate_fresh, of "Num 7"] show ?thesis by blast
qed

text \<open>
  C4, as the code has it. A successful \<open>allocate(size, typeTag)\<close> on a reachable arena
  returns the lowest address at or above the free-address watermark \<open>nextFreeAddress\<close>
  (itself never below the reserved region, address 1024) at which \<open>size\<close> consecutive
  slots are free and end within the arena; for a positive size it fails exactly when no
  such run exists at or above the watermark.
\<close>

theorem allocate_lowest_above_watermark:
  assumes "arena_reachable m" and "0 < sz"
  shows "(\<forall>a m'. allocate m sz t = Inr (a, m') \<longrightarrow>
            SYSTEM_RESERVED \<le> a \<and> nextFreeAddress m \<le> a \<and> a + sz \<le> memorySize m \<and>
            free_run m sz a \<and>
            (\<forall>c. nextFreeAddress m \<le> c \<and> c < a \<longrightarrow> \<not> free_run m sz c)) \<and>
         ((\<exists>e. allocate m sz t = Inl e) \<longleftrightarrow>
           \<not> (\<exists>c. nextFreeAddress m \<le> c \<and> c + sz \<le> memorySize m \<and> free_run m sz c))"
proof (intro conjI allI impI)
  fix a m'
  assume "allocate m sz t = Inr (a, m')"
  from findFreeBlock_from_Inr[OF allocate_Inr(2)[OF this]]
    arena_reachable_watermark[OF assms(1)]
  show "SYSTEM_RESERVED \<le> a" "nextFreeAddress m \<le> a" "a + sz \<le> memorySize m"
    "free_run m sz a" "\<And>c. nextFreeAddress m \<le> c \<and> c < a \<Longrightarrow> \<not> free_run m sz c"
    by auto
next
  show "(\<exists>e. allocate m sz t = Inl e) \<longleftrightarrow>
           \<not> (\<exists>c. nextFreeAddress m \<le> c \<and> c + sz \<le> memorySize m \<and> free_run m sz c)"
  proof (cases "findFreeBlock_from m sz (nextFreeAddress m)")
    case (Inl e)
    from findFreeBlock_from_Inl[OF Inl] Inl assms(2) show ?thesis
      by (auto simp: allocate_def findFreeBlock_def)
  next
    case (Inr b)
    from findFreeBlock_from_Inr[OF Inr] Inr assms(2) show ?thesis
      by (auto simp: allocate_def findFreeBlock_def)
  qed
qed

theorem allocate_lowest_above_watermark_witness:
  "arena_reachable hole_arena \<and> (0::int) < 1 \<and>
   map_sum id fst (allocate hole_arena 1 ''INTEGER'') = Inr 1026 \<and>
   nextFreeAddress hole_arena = 1026 \<and> SYSTEM_RESERVED \<le> 1026"
  using allocate_lowest_above_watermark[OF hole_arena_reachable, of 1 "''INTEGER''"]
    hole_arena_reachable
  by (simp add: hole_arena_fields allocate_hole SYSTEM_RESERVED_def)

text \<open>
  C4 as stated fails: in \<open>hole_arena\<close> the lowest free slot at or above the reserved
  region is 1024, yet \<open>allocate(1)\<close> returns 1026, because the scan starts at the
  watermark.
\<close>

theorem allocate_lowest_counterexample:
  "map_sum id fst (allocate hole_arena 1 ''INTEGER'') = Inr 1026 \<and>
   SYSTEM_RESERVED \<le> 1024 \<and> (1024::int) < 1026 \<and> free_run hole_arena 1 1024"
  by (simp add: hole_arena_fields allocate_hole SYSTEM_RESERVED_def free_run_def)

section \<open>Properties of the tokenizer\<close>

lemma lexQuoted_positions:
  assumes "1 \<le> line" "1 \<le> column"
    and "\<And>l c. err_line (err l c) = l \<and> err_column (err l c) = c"
  shows "lexQuoted q err rest line column = Inl e \<Longrightarrow> 1 \<le> err_line e \<and> 1 \<le> err_column e"
    and "lexQuoted q err rest line column = Inr (toks, cs', line', column') \<Longrightarrow>
           1 \<le> line' \<and> 1 \<le> column' \<and> EOF \<notin> tok_type ` set toks"
  using assms
  by (auto simp: lexQuoted_def Let_def mkToken_def split: list.splits if_splits)

lemma lexStep_Inl:
  assumes "1 \<le> line" "1 \<le> column" and "lexStep c rest line column = Inl e"
  shows "1 \<le> err_line e \<and> 1 \<le> err_column e"
proof -
  have q1: "lexQuoted q UnterminatedString rest line column = Inl e \<Longrightarrow>
      1 \<le> err_line e \<and> 1 \<le> err_column e" for q
    by (rule lexQuoted_positions(1)[OF assms(1,2), where err = UnterminatedString]) simp_all
  have q2: "lexQuoted q UnterminatedCharacterLiteral rest line column = Inl e \<Longrightarrow>
      1 \<le> err_line e \<and> 1 \<le> err_column e" for q
    by (rule lexQuoted_positions(1)[OF assms(1,2), where err = UnterminatedCharacterLiteral])
      simp_all
  from assms(3) show ?thesis
    unfolding lexStep_def Let_def
    using assms(1,2) q1 q2 by (auto split: if_splits)
qed

lemma lexStep_Inr:
  assumes "1 \<le> line" "1 \<le> column"
    and "lexStep c rest line column = Inr (toks, cs', line', column')"
  shows "1 \<le> line' \<and> 1 \<le> column' \<and> EOF \<notin> tok_type ` set toks"
proof -
  have q1: "lexQuoted q UnterminatedString rest line column = Inr (toks, cs', line', column') \<Longrightarrow>
      1 \<le> line' \<and> 1 \<le> column' \<and> EOF \<notin> tok_type ` set toks" for q
    by (rule lexQuoted_positions(2)[OF assms(1,2), where err = UnterminatedString]) simp_all
  have q2: "lexQuoted q UnterminatedCharacterLiteral rest line column = Inr (toks, cs', line', column') \<Longrightarrow>
      1 \<le> line' \<and> 1 \<le> column' \<and> EOF \<notin> tok_type ` set toks" for q
    by (rule lexQuoted_positions(2)[OF assms(1,2), where err = UnterminatedCharacterLiteral])
      simp_all
  from assms(3) show ?thesis
    unfolding lexStep_def Let_def
    using assms(1,2) q1 q2 by (auto simp: mkToken_def split: if_splits)
qed

lemma tokenize_from_result:
  "1 \<le> line \<Longrightarrow> 1 \<le> column \<Longrightarrow>
     (\<exists>e. tokenize_from cs line column tokens = Inl e \<and> 1 \<le> err_line e \<and> 1 \<le> err_column e) \<or>
     (\<exists>ts l c. tokenize_from cs line column tokens = Inr (tokens @ ts @ [mkToken EOF [] l c]) \<and>
        EOF \<notin> tok_type ` set ts)"
proof (induction cs line column tokens rule: tokenize_from.induct)
  case (1 cs line column tokens)
  show ?case
  proof (cases cs)
    case Nil
    then have "tokenize_from cs line column tokens = Inr (tokens @ [] @ [mkToken EOF [] line column])"
      by (simp add: tokenize_from.simps[of "[]"])
    then show ?thesis by (intro disjI2 exI[of _ "[]"] exI conjI) auto
  next
    case (Cons c rest)
    show ?thesis
    proof (cases "lexStep c rest line column")
      case (Inl e)
      with Cons have "tokenize_from cs line column tokens = Inl e"
        by (simp add: tokenize_from.simps[of "c # rest"])
      with lexStep_Inl[OF "1.prems" Inl] show ?thesis by blast
    next
      case (Inr r)
      obtain toks cs' line' column' where r: "r = (toks, cs', line', column')"
        by (cases r) auto
      note step = Inr[unfolded r]
      from Cons step have unf: "tokenize_from cs line column tokens =
          tokenize_from cs' line' column' (tokens @ toks)"
        by (simp add: tokenize_from.simps[of "c # rest"])
      from lexStep_Inr[OF "1.prems" step]
      have pos: "1 \<le> line'" "1 \<le> column'" and noeof: "EOF \<notin> tok_type ` set toks"
        by auto
      from "1.IH"[OF Cons step refl refl refl pos]
      show ?thesis
      proof
        assume "\<exists>e. tokenize_from cs' line' column' (tokens @ toks) = Inl e \<and>
                 1 \<le> err_line e \<and> 1 \<le> err_column e"
        with unf show ?thesis by simp
      next
        assume "\<exists>ts l c. tokenize_from cs' line' column' (tokens @ toks) =
                  Inr ((tokens @ toks) @ ts @ [mkToken EOF [] l c]) \<and> EOF \<notin> tok_type ` set ts"
        then obtain ts l c where
          "tokenize_from cs' line' column' (tokens @ toks) =
             Inr ((tokens @ toks) @ ts @ [mkToken EOF [] l c])" "EOF \<notin> tok_type ` set ts"
          by blast
        with unf noeof have
          "tokenize_from cs line column tokens = Inr (tokens @ (toks @ ts) @ [mkToken EOF [] l c])"
          "EOF \<notin> tok_type ` set (toks @ ts)"
          by auto
        then show ?thesis by blast
      qed
    qed
  qed
qed

text \<open>
  C8. On every input string \<open>tokenize\<close> terminates (it is a total function whose loop
  consumes at least one character per iteration), and its result is either a syntax
  error, which is one of the four kinds of \<open>lex_error\<close> and carries a line and a column
  that are both at least 1, or a token sequence that ends with the end-of-input token
  and has no end-of-input token before it.
\<close>

theorem tokenize_total:
  "(\<exists>e. tokenize code = Inl e \<and> 1 \<le> err_line e \<and> 1 \<le> err_column e) \<or>
   (\<exists>ts. tokenize code = Inr ts \<and> ts \<noteq> [] \<and> tok_type (last ts) = EOF \<and>
      EOF \<notin> tok_type ` set (butlast ts))"
proof -
  from tokenize_from_result[OF le_refl le_refl, of code "[]"]
  show ?thesis
  proof
    assume "\<exists>e. tokenize_from code 1 1 [] = Inl e \<and> 1 \<le> err_line e \<and> 1 \<le> err_column e"
    then show ?thesis by (simp add: tokenize_def)
  next
    assume "\<exists>ts l c. tokenize_from code 1 1 [] = Inr ([] @ ts @ [mkToken EOF [] l c]) \<and>
              EOF \<notin> tok_type ` set ts"
    then obtain ts l c where
      "tokenize code = Inr (ts @ [mkToken EOF [] l c])" "EOF \<notin> tok_type ` set ts"
      by (auto simp: tokenize_def)
    then have "tokenize code = Inr (ts @ [mkToken EOF [] l c]) \<and> ts @ [mkToken EOF [] l c] \<noteq> [] \<and>
      tok_type (last (ts @ [mkToken EOF [] l c])) = EOF \<and>
      EOF \<notin> tok_type ` set (butlast (ts @ [mkToken EOF [] l c]))"
      by (simp add: mkToken_def)
    then show ?thesis by blast
  qed
qed

section \<open>The state operations, field by field\<close>

lemma newVariable_fields [simp]:
  "heap (newVariable st c x v) = (heap st)(nextRef st := v)"
  "nextRef (newVariable st c x v) = nextRef st + 1"
  "contexts (newVariable st c x v) = (contexts st)(c := (contexts st c)(x \<mapsto> nextRef st))"
  "nextContext (newVariable st c x v) = nextContext st"
  "procedures (newVariable st c x v) = procedures st"
  "iterationCount (newVariable st c x v) = iterationCount st"
  "recursionDepth (newVariable st c x v) = recursionDepth st"
  "callStack (newVariable st c x v) = callStack st"
  "outputs (newVariable st c x v) = outputs st"
  "inputCount (newVariable st c x v) = inputCount st"
  by (simp_all add: newVariable_def bindVariable_def)

lemma bindVariable_fields [simp]:
  "heap (bindVariable st c x r) = heap st"
  "nextRef (bindVariable st c x r) = nextRef st"
  "contexts (bindVariable st c x r) = (contexts st)(c := (contexts st c)(x \<mapsto> r))"
  "nextContext (bindVariable st c x r) = nextContext st"
  "procedures (bindVariable st c x r) = procedures st"
  "iterationCount (bindVariable st c x r) = iterationCount st"
  "recursionDepth (bindVariable st c x r) = recursionDepth st"
  "callStack (bindVariable st c x r) = callStack st"
  "outputs (bindVariable st c x r) = outputs st"
  "inputCount (bindVariable st c x r) = inputCount st"
  by (simp_all add: bindVariable_def)

lemma assignVariable_fields [simp]:
  "heap (assignVariable st r v) =
     (heap st)(r := (heap st r) \<lparr> v_value := v, v_initialized := True \<rparr>)"
  "nextRef (assignVariable st r v) = nextRef st"
  "contexts (assignVariable st r v) = contexts st"
  "nextContext (assignVariable st r v) = nextContext st"
  "procedures (assignVariable st r v) = procedures st"
  "iterationCount (assignVariable st r v) = iterationCount st"
  "recursionDepth (assignVariable st r v) = recursionDepth st"
  "callStack (assignVariable st r v) = callStack st"
  "outputs (assignVariable st r v) = outputs st"
  "inputCount (assignVariable st r v) = inputCount st"
  by (simp_all add: assignVariable_def)

lemma leaveProcedure_fields [simp]:
  "heap (leaveProcedure st) = heap st"
  "nextRef (leaveProcedure st) = nextRef st"
  "contexts (leaveProcedure st) = contexts st"
  "nextContext (leaveProcedure st) = nextContext st"
  "procedures (leaveProcedure st) = procedures st"
  "iterationCount (leaveProcedure st) = iterationCount st"
  "recursionDepth (leaveProcedure st) = recursionDepth st - 1"
  "callStack (leaveProcedure st) = butlast (callStack st)"
  "outputs (leaveProcedure st) = outputs st"
  "inputCount (leaveProcedure st) = inputCount st"
  by (simp_all add: leaveProcedure_def)

lemma new_Interpreter_fields [simp]:
  "nextRef new_Interpreter = 0"
  "contexts new_Interpreter = (\<lambda>_. Map.empty)"
  "nextContext new_Interpreter = 1"
  "procedures new_Interpreter = Map.empty"
  "iterationCount new_Interpreter = 0"
  "recursionDepth new_Interpreter = 0"
  "callStack new_Interpreter = [(''main'', 1, ''main'')]"
  "outputs new_Interpreter = []"
  "inputCount new_Interpreter = 0"
  by (simp_all add: new_Interpreter_def)

text \<open>\<open>getVariable\<close> depends on the contexts only.\<close>

lemma getVariable_cong:
  "contexts st' = contexts st \<Longrightarrow> getVariable st' name c = getVariable st name c"
  by (simp add: getVariable_def split: option.splits)

lemma getVariable_updates [simp]:
  "getVariable (st \<lparr> heap := hp \<rparr>) name c = getVariable st name c"
  "getVariable (st \<lparr> iterationCount := i \<rparr>) name c = getVariable st name c"
  "getVariable (st \<lparr> recursionDepth := d \<rparr>) name c = getVariable st name c"
  "getVariable (st \<lparr> callStack := cs \<rparr>) name c = getVariable st name c"
  "getVariable (st \<lparr> outputs := os \<rparr>) name c = getVariable st name c"
  "getVariable (st \<lparr> inputCount := k \<rparr>) name c = getVariable st name c"
  "getVariable (assignVariable st r v) name c = getVariable st name c"
  "getVariable (leaveProcedure st) name c = getVariable st name c"
  by (simp_all add: getVariable_def split: option.splits)





lemma getVariable_fresh_context:
  "caller \<noteq> local \<Longrightarrow> local \<noteq> 0 \<Longrightarrow>
     getVariable (st \<lparr> contexts := (contexts st)(local := m) \<rparr>) x caller = getVariable st x caller"
  by (simp add: getVariable_def split: option.splits)

lemma getVariable_bindVariable_other:
  "caller \<noteq> local \<Longrightarrow> local \<noteq> 0 \<Longrightarrow>
     getVariable (bindVariable st local p r) x caller = getVariable st x caller"
  by (simp add: getVariable_def split: option.splits)

lemma getVariable_bindVariable_same [simp]:
  "getVariable (bindVariable st local p r) p local = Some r"
  by (simp add: getVariable_def)

lemma getVariable_newVariable_other:
  "caller \<noteq> local \<Longrightarrow> local \<noteq> 0 \<Longrightarrow>
     getVariable (newVariable st local p v) x caller = getVariable st x caller"
  by (simp add: getVariable_def split: option.splits)

lemma getVariable_newVariable_same [simp]:
  "getVariable (newVariable st local p v) p local = Some (nextRef st)"
  by (simp add: getVariable_def)

section \<open>Properties of the evaluator\<close>

text \<open>
  C9. Applied to any two operand values, \<open>=\<close> and \<open><>\<close> never raise: \<open>=\<close> returns
  whether the values are identical and \<open><>\<close> its negation, so two values of different
  types compare unequal; and a BinaryOp node with one of these operators evaluates to
  that result whenever its two operands evaluate. The ordering operators
  \<open><\<close>, \<open>>\<close>, \<open><=\<close>, \<open>>=\<close> return a boolean when both operands are numbers or both
  are strings, and raise the "Invalid comparison" error otherwise.
\<close>

theorem equality_never_raises:
  "binaryOp h ''='' l r line = Inr (Bool (l = r)) \<and>
   binaryOp h ''<>'' l r line = Inr (Bool (l \<noteq> r)) \<and>
   (typeof l \<noteq> typeof r \<longrightarrow>
      binaryOp h ''='' l r line = Inr (Bool False) \<and>
      binaryOp h ''<>'' l r line = Inr (Bool True)) \<and>
   (evaluateExpression h st c a = Inr l \<and> evaluateExpression h st c b = Inr r \<longrightarrow>
      evaluateExpression h st c (BinaryOp ''='' a b line) = Inr (Bool (l = r)) \<and>
      evaluateExpression h st c (BinaryOp ''<>'' a b line) = Inr (Bool (l \<noteq> r))) \<and>
   (\<forall>op \<in> {''<'', ''>'', ''<='', ''>=''}.
      if (typeof l = ''number'' \<and> typeof r = ''number'') \<or>
         (typeof l = ''string'' \<and> typeof r = ''string'')
      then \<exists>b. binaryOp h op l r line = Inr (Bool b)
      else binaryOp h op l r line = Inl (RuntimeError InvalidComparison line))"
proof (intro conjI impI ballI)
  show eq: "binaryOp h ''='' l r line = Inr (Bool (l = r))"
    by (simp add: binaryOp_def)
  show ne: "binaryOp h ''<>'' l r line = Inr (Bool (l \<noteq> r))"
    by (simp add: binaryOp_def)
  show "binaryOp h ''='' l r line = Inr (Bool False)" if "typeof l \<noteq> typeof r"
    using that eq by auto
  show "binaryOp h ''<>'' l r line = Inr (Bool True)" if "typeof l \<noteq> typeof r"
    using that ne by auto
  show "evaluateExpression h st c (BinaryOp ''='' a b line) = Inr (Bool (l = r))"
    if "evaluateExpression h st c a = Inr l \<and> evaluateExpression h st c b = Inr r"
    using that eq by simp
  show "evaluateExpression h st c (BinaryOp ''<>'' a b line) = Inr (Bool (l \<noteq> r))"
    if "evaluateExpression h st c a = Inr l \<and> evaluateExpression h st c b = Inr r"
    using that ne by simp
next
  fix op :: string
  assume "op \<in> {''<'', ''>'', ''<='', ''>=''}"
  then consider "op = ''<''" | "op = ''>''" | "op = ''<=''" | "op = ''>=''" by auto
  then show "if (typeof l = ''number'' \<and> typeof r = ''number'') \<or>
         (typeof l = ''string'' \<and> typeof r = ''string'')
      then \<exists>b. binaryOp h op l r line = Inr (Bool b)
      else binaryOp h op l r line = Inl (RuntimeError InvalidComparison line)"
  proof cases
    case 1
    then show ?thesis by (cases l; cases r) (simp_all add: binaryOp_def typeof_def)
  next
    case 2
    then show ?thesis by (cases l; cases r) (simp_all add: binaryOp_def typeof_def)
  next
    case 3
    then show ?thesis by (cases l; cases r) (simp_all add: binaryOp_def typeof_def)
  next
    case 4
    then show ?thesis by (cases l; cases r) (simp_all add: binaryOp_def typeof_def)
  qed
qed

theorem equality_never_raises_witness:
  "typeof (Num 1) \<noteq> typeof (Str ''1'') \<and>
   binaryOp example_host ''='' (Num 1) (Str ''1'') 7 = Inr (Bool False) \<and>
   binaryOp example_host ''<>'' (Num 1) (Str ''1'') 7 = Inr (Bool True) \<and>
   binaryOp example_host ''<'' (Num 1) (Str ''1'') 7 = Inl (RuntimeError InvalidComparison 7) \<and>
   evaluateExpression example_host new_Interpreter 0 (Literal (Num 1) ''INTEGER'' 7) = Inr (Num 1) \<and>
   evaluateExpression example_host new_Interpreter 0
     (BinaryOp ''='' (Literal (Num 1) ''INTEGER'' 7) (Literal (Str ''1'') ''STRING'' 7) 7) =
     Inr (Bool False)"
  using equality_never_raises[of example_host "Num 1" "Str ''1''" 7 new_Interpreter 0
      "Literal (Num 1) ''INTEGER'' 7" "Literal (Str ''1'') ''STRING'' 7"]
  by (simp add: typeof_def)

text \<open>
  C10. An INPUT statement on a declared variable never raises, whatever string the
  handler supplies. When the string does not parse (\<open>parseInt\<close> or \<open>parseFloat\<close>
  gives NaN) an INTEGER or REAL variable receives 0; a BOOLEAN variable receives true
  exactly when the lower-cased string is \<open>true\<close>. In every case the variable is
  marked initialised and the raw string is appended to the output as one line.
\<close>

theorem input_never_raises:
  assumes "getVariable st varName context = Some r"
    and "input = inputHandler h (inputCount st) varName (v_type (heap st r))"
  shows "\<exists>st'. executeInput h st context (Identifier varName l) line = Done st' \<and>
           outputs st' = outputs st @ [input] \<and>
           v_initialized (heap st' r) \<and>
           (v_type (heap st r) = ''INTEGER'' \<and> parseInt h input = None \<longrightarrow>
              v_value (heap st' r) = Num 0) \<and>
           (v_type (heap st r) = ''REAL'' \<and> parseFloat h input = None \<longrightarrow>
              v_value (heap st' r) = Num 0) \<and>
           (v_type (heap st r) = ''BOOLEAN'' \<longrightarrow>
              v_value (heap st' r) = Bool (toLowerCase input = ''true''))"
proof -
  let ?t = "v_type (heap st r)"
  let ?st1 = "assignVariable (st \<lparr> inputCount := inputCount st + 1 \<rparr>) r (convertInput h ?t input)"
  let ?st' = "?st1 \<lparr> outputs := outputs ?st1 @ [input] \<rparr>"
  have run: "executeInput h st context (Identifier varName l) line = Done ?st'"
    using assms by (simp add: executeInput_def Let_def)
  have out: "outputs ?st' = outputs st @ [input]"
    by simp
  have init: "v_initialized (heap ?st' r)"
    by simp
  have val: "v_value (heap ?st' r) = convertInput h ?t input"
    by simp
  have int: "convertInput h ?t input = Num 0" if "?t = ''INTEGER''" "parseInt h input = None"
    using that by (simp add: convertInput_def)
  have real: "convertInput h ?t input = Num 0" if "?t = ''REAL''" "parseFloat h input = None"
    using that by (simp add: convertInput_def)
  have bool: "convertInput h ?t input = Bool (toLowerCase input = ''true'')" if "?t = ''BOOLEAN''"
    using that by (simp add: convertInput_def)
  show ?thesis
  proof (intro exI[of _ ?st'] conjI impI)
    show "executeInput h st context (Identifier varName l) line = Done ?st'" by (rule run)
    show "outputs ?st' = outputs st @ [input]" by (rule out)
    show "v_initialized (heap ?st' r)" by (rule init)
    show "v_value (heap ?st' r) = Num 0" if "?t = ''INTEGER'' \<and> parseInt h input = None"
      using that val int by simp
    show "v_value (heap ?st' r) = Num 0" if "?t = ''REAL'' \<and> parseFloat h input = None"
      using that val real by simp
    show "v_value (heap ?st' r) = Bool (toLowerCase input = ''true'')" if "?t = ''BOOLEAN''"
      using that val bool by simp
  qed
qed

theorem input_never_raises_witness:
  "getVariable C10_state ''flag'' 0 = Some 0 \<and>
   ''abc'' = inputHandler example_host (inputCount C10_state) ''flag'' (v_type (heap C10_state 0)) \<and>
   v_type (heap C10_state 0) = ''BOOLEAN'' \<and>
   convertInput example_host ''BOOLEAN'' ''TrUe'' = Bool True \<and>
   (\<exists>st'. executeInput example_host C10_state 0 (Identifier ''flag'' 3) 3 = Done st' \<and>
      outputs st' = outputs C10_state @ [''abc''] \<and>
      v_initialized (heap st' 0) \<and>
      v_value (heap st' 0) = Bool False)"
proof -
  have g: "getVariable C10_state ''flag'' 0 = Some 0"
    by (simp add: C10_state_def getVariable_def)
  have i: "''abc'' =
      inputHandler example_host (inputCount C10_state) ''flag'' (v_type (heap C10_state 0))"
    by (simp add: example_host_def)
  have t: "v_type (heap C10_state 0) = ''BOOLEAN''"
    by (simp add: C10_state_def)
  have f: "toLowerCase ''abc'' \<noteq> ''true''"
    by (simp add: toLowerCase_def)
  have u: "convertInput example_host ''BOOLEAN'' ''TrUe'' = Bool True"
    by code_simp
  from input_never_raises[OF g i, of 3 3] g i t f u show ?thesis
    by auto
qed

text \<open>
  C2. The evaluator has no case for the address-of expression: the program of the
  property stops at \<open>p <-- &x\<close> with the error "Unknown expression type: AddressOf",
  whatever the environment and the fuel. An assignment whose target is a dereference
  changes nothing.
\<close>

theorem pointer_program_raises:
  "(\<exists>st. executeProgram (Suc n) h pointer_program =
      Thrown (RuntimeError (UnknownExpressionType ''AddressOf'') 4) st) \<and>
   executeAssignment h st' context (Dereference (Identifier ''q'' 6) 6)
     (Literal (Num 5) ''INTEGER'' 6) 6 = Done st'"
proof
  show "\<exists>st. executeProgram (Suc n) h pointer_program =
      Thrown (RuntimeError (UnknownExpressionType ''AddressOf'') 4) st"
    by (simp add: executeProgram_def execute_def pointer_program_def isProcedure_def
        executeNode_def executeDeclare_def executeAssignment_def
        MAX_ITERATIONS_def Let_def)
next
  show "executeAssignment h st' context (Dereference (Identifier ''q'' 6) 6)
     (Literal (Num 5) ''INTEGER'' 6) 6 = Done st'"
    by (simp add: executeAssignment_def)
qed

lemma getProp_element [simp]:
  "getProp (element i v) (Field ''initialized'') = Inr (Bool i)"
  "getProp (element i v) (Field ''value'') = Inr v"
  by (simp_all add: getProp_def element_def)









section \<open>Parameter passing\<close>









section \<open>The recursion ceiling\<close>






section \<open>The FOR loop\<close>

lemma js_compare_Num [simp]:
  "js_le h (Num v) e = (v \<le> e)" "js_ge h (Num v) e = (v \<ge> e)"
  "js_plus h (Num v) n = Some (Num (v + n))"
  by (simp_all add: js_le_def js_ge_def js_plus_def toNumber_def)














end
